theory Spec2Isabelle
  imports Complex_Main "HOL-Library.Monad_Syntax" "HOL-Library.Sublist"
begin

section \<open>Python values and coercions used by \<^verbatim>\<open>backend/navi_volo_api.py\<close>\<close>

text \<open>
  The upstream endpoints answer with JSON. A parsed JSON document is a value of the
  datatype below. An object is the list of its members in the order of the document;
  \<^verbatim>\<open>json.loads\<close> keeps the last of several members with one name, and so does
  \<open>dict_lookup\<close>. A string is the list of its characters, each a code point below 256.
  A JSON number is an integer or a finite float.

  A Python float is a real number or one of the three values that are not finite.
  Arithmetic on finite floats is exact: rounding, and with it the overflow or underflow
  of a finite result, is not modelled. Conversions to float raise where Python raises.

  The data frame of pandas is the list of its rows, holding the values it was built from.

  Every handler of the module is a blanket \<^verbatim>\<open>except Exception\<close>, so the kind of an exception
  never matters: a Python expression that may raise is an \<open>option\<close>, with \<open>None\<close> for
  "raised".
\<close>

datatype json =
    JNull
  | JBool bool
  | JInt int
  | JFloat real
  | JStr string
  | JArr "json list"
  | JObj "(string \<times> json) list"

definition dict_lookup :: "(string \<times> json) list \<Rightarrow> string \<Rightarrow> json option" where
  "dict_lookup kvs k = map_of (rev kvs) k"

declare dict_lookup_def [simp]

text \<open>\<^verbatim>\<open>d.get(key, default)\<close>: only a dict has \<^verbatim>\<open>get\<close>; on anything else the attribute
  lookup raises AttributeError.\<close>

fun py_get :: "json \<Rightarrow> string \<Rightarrow> json \<Rightarrow> json option" where
  "py_get (JObj kvs) k dflt = Some (case dict_lookup kvs k of None \<Rightarrow> dflt | Some v \<Rightarrow> v)"
| "py_get _ k dflt = None"

subsection \<open>Floats\<close>

datatype pyfloat = Finite real | PosInf | NegInf | NaN

text \<open>\<^verbatim>\<open>x * c\<close> for a float \<open>x\<close> and a finite float \<open>c\<close>.\<close>

fun fmul :: "pyfloat \<Rightarrow> real \<Rightarrow> pyfloat" where
  "fmul (Finite r) c = Finite (r * c)"
| "fmul PosInf c = (if 0 < c then PosInf else if c < 0 then NegInf else NaN)"
| "fmul NegInf c = (if 0 < c then NegInf else if c < 0 then PosInf else NaN)"
| "fmul NaN c = NaN"

text \<open>\<^verbatim>\<open>x / 1e9\<close>.\<close>

fun div_1e9 :: "pyfloat \<Rightarrow> pyfloat" where
  "div_1e9 (Finite r) = Finite (r / 1000000000)"
| "div_1e9 PosInf = PosInf"
| "div_1e9 NegInf = NegInf"
| "div_1e9 NaN = NaN"

text \<open>
  The least magnitude that is too large for a float: \<open>2\<^sup>1\<^sup>0\<^sup>2\<^sup>4 - 2\<^sup>9\<^sup>7\<^sup>0\<close>, half-way between
  the largest double and \<open>2\<^sup>1\<^sup>0\<^sup>2\<^sup>4\<close>. From there on \<^verbatim>\<open>float(n)\<close> and \<^verbatim>\<open>n / 1000\<close> of an
  integer raise OverflowError, and a decimal literal denotes an infinity.
\<close>

definition float_limit :: real where
  "float_limit = 2 ^ 1024 - 2 ^ 970"

subsection \<open>\<^verbatim>\<open>float(x)\<close>\<close>

definition is_digit :: "char \<Rightarrow> bool" where
  "is_digit c = (48 \<le> (of_char c :: nat) \<and> (of_char c :: nat) \<le> 57)"

text \<open>The characters \<^verbatim>\<open>float\<close> strips from both ends of a string: the ASCII white space
  (tab to carriage return, and the space) and the two other spaces below 256, U+0085 and
  U+00A0.\<close>

definition is_space :: "char \<Rightarrow> bool" where
  "is_space c =
     ((9 \<le> (of_char c :: nat) \<and> (of_char c :: nat) \<le> 13) \<or> (of_char c :: nat) = 32
      \<or> (of_char c :: nat) = 133 \<or> (of_char c :: nat) = 160)"

definition digits_value :: "string \<Rightarrow> nat" where
  "digits_value ds = foldl (\<lambda>a c. 10 * a + ((of_char c :: nat) - 48)) 0 ds"

definition strip :: "string \<Rightarrow> string" where
  "strip s = rev (dropWhile is_space (rev (dropWhile is_space s)))"

text \<open>Digit-group underscores: each underscore of the string stands between two digits.
  The first argument is the character before the rest of the string (NUL at the
  start).\<close>

fun underscores_ok :: "char \<Rightarrow> string \<Rightarrow> bool" where
  "underscores_ok prev [] = (prev \<noteq> CHR ''_'')"
| "underscores_ok prev (c # cs) =
     ((if c = CHR ''_'' then is_digit prev
       else if prev = CHR ''_'' then is_digit c else True)
      \<and> underscores_ok c cs)"

text \<open>An optional sign in front of the rest of the literal: the sign as \<open>1\<close> or \<open>-1\<close>.\<close>

fun split_sign :: "string \<Rightarrow> int \<times> string" where
  "split_sign [] = (1, [])"
| "split_sign (c # cs) =
     (if c = CHR ''-'' then (-1, cs) else if c = CHR ''+'' then (1, cs) else (1, c # cs))"

text \<open>The exponent part of a float literal, after the mantissa: empty, or \<^verbatim>\<open>e\<close>/\<^verbatim>\<open>E\<close>, an
  optional sign and at least one digit.\<close>

definition parse_exponent :: "string \<Rightarrow> int option" where
  "parse_exponent s =
     (case s of
        [] \<Rightarrow> Some 0
      | c # cs \<Rightarrow>
          if c = CHR ''e'' \<or> c = CHR ''E'' then
            (let (sg, ds) = split_sign cs
             in if ds \<noteq> [] \<and> list_all is_digit ds then Some (sg * int (digits_value ds))
                else None)
          else None)"

text \<open>The code of a character with the ASCII capitals brought to lower case: the words
  \<^verbatim>\<open>inf\<close>, \<^verbatim>\<open>infinity\<close> and \<^verbatim>\<open>nan\<close> are read in any case.\<close>

definition lower_code :: "char \<Rightarrow> nat" where
  "lower_code c =
     (if 65 \<le> (of_char c :: nat) \<and> (of_char c :: nat) \<le> 90 then of_char c + 32 else of_char c)"

text \<open>The float a decimal literal of value \<open>v\<close> denotes.\<close>

definition literal_float :: "real \<Rightarrow> pyfloat" where
  "literal_float v =
     (if float_limit \<le> \<bar>v\<bar> then (if 0 < v then PosInf else NegInf) else Finite v)"

text \<open>
  \<^verbatim>\<open>float(s)\<close> on a string. Underscores are checked and removed, then the white space at
  both ends; what remains is an optional sign and either one of the words \<^verbatim>\<open>inf\<close>,
  \<^verbatim>\<open>infinity\<close>, \<^verbatim>\<open>nan\<close>, or digits with an optional fractional part (at least one digit in
  all) and an optional exponent. Anything else raises ValueError.
\<close>

definition parse_float :: "string \<Rightarrow> pyfloat option" where
  "parse_float s =
     (if \<not> underscores_ok (CHR 0x00) s then None
      else
        (let (sg, body) = split_sign (strip (filter (\<lambda>c. c \<noteq> CHR ''_'') s));
             word = map lower_code body;
             ip = takeWhile is_digit body;
             r1 = dropWhile is_digit body;
             (fp, r2) = (case r1 of
                           [] \<Rightarrow> ([], [])
                         | c # cs \<Rightarrow>
                             if c = CHR ''.''
                             then (takeWhile is_digit cs, dropWhile is_digit cs)
                             else ([], r1))
         in if word = map of_char ''inf'' \<or> word = map of_char ''infinity''
            then Some (if 0 < sg then PosInf else NegInf)
            else if word = map of_char ''nan'' then Some NaN
            else if ip = [] \<and> fp = [] then None
            else (case parse_exponent r2 of
                    None \<Rightarrow> None
                  | Some e \<Rightarrow>
                      Some (literal_float
                              (real_of_int sg
                               * (real (digits_value ip)
                                  + real (digits_value fp) / 10 ^ length fp)
                               * 10 powi e)))))"

text \<open>\<^verbatim>\<open>float(x)\<close>: of an integer (\<^verbatim>\<open>bool\<close> is a subclass of \<^verbatim>\<open>int\<close>) its value, OverflowError
  when it is too large; of a JSON float the float its literal denotes; of a string the
  float it spells; TypeError on \<^verbatim>\<open>None\<close>, a list or a dict.\<close>

fun py_float :: "json \<Rightarrow> pyfloat option" where
  "py_float (JInt n) = (if \<bar>real_of_int n\<bar> < float_limit then Some (Finite (real_of_int n)) else None)"
| "py_float (JFloat r) = Some (literal_float r)"
| "py_float (JBool b) = Some (Finite (of_bool b))"
| "py_float (JStr s) = parse_float s"
| "py_float _ = None"

subsection \<open>\<^verbatim>\<open>x / 1000\<close>, \<^verbatim>\<open>int(x)\<close> and \<^verbatim>\<open>str(n)\<close>\<close>

text \<open>True division by a number is defined on numbers only (\<^verbatim>\<open>bool\<close> is a subclass of
  \<^verbatim>\<open>int\<close>); a string, \<^verbatim>\<open>None\<close>, a list or a dict on the left raises TypeError, and an
  integer whose quotient is too large for a float raises OverflowError.\<close>

fun py_truediv :: "json \<Rightarrow> real \<Rightarrow> real option" where
  "py_truediv (JInt n) d =
     (if \<bar>real_of_int n / d\<bar> < float_limit then Some (real_of_int n / d) else None)"
| "py_truediv (JFloat r) d = Some (r / d)"
| "py_truediv (JBool b) d = Some (of_bool b / d)"
| "py_truediv _ d = None"

text \<open>\<^verbatim>\<open>int(x)\<close> of a finite float truncates towards zero.\<close>

definition py_int :: "real \<Rightarrow> int" where
  "py_int r = (if 0 \<le> r then \<lfloor>r\<rfloor> else \<lceil>r\<rceil>)"

fun nat_digits :: "nat \<Rightarrow> string" where
  "nat_digits n =
     (if n < 10 then [''0123456789'' ! n]
      else nat_digits (n div 10) @ [''0123456789'' ! (n mod 10)])"

declare nat_digits.simps [simp del]

definition py_str :: "int \<Rightarrow> string" where
  "py_str n = (if n < 0 then CHR ''-'' # nat_digits (nat (- n)) else nat_digits (nat n))"

subsection \<open>The clock and \<^verbatim>\<open>datetime\<close>\<close>

text \<open>
  The environment of a call: \<open>now_ms\<close> is what \<^verbatim>\<open>int(datetime.now().timestamp() * 1000)\<close>
  reads, \<open>utcoffset\<close> the offset of local time from UTC in seconds (taken constant over
  the instants of one call).

  A naive \<^verbatim>\<open>datetime\<close> with whole seconds is the number of seconds since
  1970-01-01 00:00:00 on its own calendar. Python represents the years 1 to 9999 only:
  \<^verbatim>\<open>datetime - timedelta\<close> raises OverflowError when the result is outside
  \<^verbatim>\<open>datetime.min\<close> .. \<^verbatim>\<open>datetime.max\<close>. \<^verbatim>\<open>datetime.fromtimestamp\<close> raises (ValueError or
  OverflowError) when the local time is outside that range, and also when the local time
  one day earlier is: to find the fold of the result it converts the instant 24 hours
  before as well.
\<close>

record env =
  now_ms :: int
  utcoffset :: int

definition datetime_min :: int where
  "datetime_min = - 62135596800"

definition datetime_max :: int where
  "datetime_max = 253402300799"

definition fromtimestamp :: "env \<Rightarrow> int \<Rightarrow> int option" where
  "fromtimestamp e secs =
     (let t = secs + utcoffset e
      in if datetime_min \<le> t - 86400 \<and> t \<le> datetime_max then Some t else None)"

definition minus_days :: "int \<Rightarrow> nat \<Rightarrow> int option" where
  "minus_days t i =
     (let t' = t - 86400 * int i
      in if datetime_min \<le> t' \<and> t' \<le> datetime_max then Some t' else None)"

text \<open>\<^verbatim>\<open>range(days)\<close> for an integer \<open>days\<close>: empty when \<open>days \<le> 0\<close>.\<close>

definition py_range :: "int \<Rightarrow> nat list" where
  "py_range days = [0 ..< nat days]"

section \<open>The synthetic history generator\<close>

text \<open>One row of a data frame with the columns \<^verbatim>\<open>apr\<close>, \<^verbatim>\<open>tvl\<close> and \<^verbatim>\<open>sui_price\<close>
  (the frame the predict endpoint builds), and one row of the generator's frame, which
  has the column \<^verbatim>\<open>timestamp\<close> as well (one record of \<^verbatim>\<open>df.to_dict('records')\<close>). The
  values of the columns are of type \<open>'v\<close>: floats in the frames the generator builds, real
  numbers in the frames the predictor is studied on.\<close>

record 'v sample =
  apr :: 'v
  tvl :: 'v
  sui_price :: 'v

record 'v hist = "'v sample" +
  timestamp :: int

text \<open>
  Lines 39 to 42 of \<^verbatim>\<open>simulate_historical_data\<close>: the four base values read from the
  snapshot. In line 39 the division by 1000 is inside \<^verbatim>\<open>int(...)\<close> and is applied to the
  value the dict lookup returns, before any conversion:
  \<^verbatim>\<open>int(latest_data.get("lastUpdateTimestamp", str(...)) / 1000)\<close>.
\<close>

definition base_values :: "env \<Rightarrow> json \<Rightarrow> (int \<times> pyfloat \<times> pyfloat \<times> pyfloat) option" where
  "base_values e latest_data = do {
     ts \<leftarrow> py_get latest_data ''lastUpdateTimestamp'' (JStr (py_str (now_ms e)));
     q \<leftarrow> py_truediv ts 1000;
     base_time \<leftarrow> fromtimestamp e (py_int q);
     info \<leftarrow> py_get latest_data ''supplyIncentiveApyInfo'' (JObj []);
     apy \<leftarrow> py_get info ''apy'' (JFloat 4.908);
     base_apr \<leftarrow> py_float apy;
     supply \<leftarrow> py_get latest_data ''totalSupplyAmount'' (JInt 52969686454591258);
     amount \<leftarrow> py_float supply;
     oracle \<leftarrow> py_get latest_data ''oracle'' (JObj []);
     price \<leftarrow> py_get oracle ''price'' (JFloat 4.34833514);
     base_price \<leftarrow> py_float price;
     Some (base_time, base_apr, div_1e9 amount, base_price)
   }"

text \<open>Lines 43 to 48: the four columns, one list comprehension each over
  \<^verbatim>\<open>range(days)\<close>, and the frame built from them row by row. The whole body is inside
  \<^verbatim>\<open>try\<close>; on any exception the function returns \<^verbatim>\<open>None\<close>.\<close>

definition simulate_historical_data :: "env \<Rightarrow> json \<Rightarrow> int \<Rightarrow> pyfloat hist list option" where
  "simulate_historical_data e latest_data days = do {
     (base_time, base_apr, base_tvl, base_price) \<leftarrow> base_values e latest_data;
     stamps \<leftarrow> those (map (minus_days base_time) (py_range days));
     Some (map (\<lambda>i. \<lparr> apr = fmul base_apr (1 + 0.01 * real (i mod 5)),
                       tvl = fmul base_tvl (1 - 0.005 * real (i mod 7)),
                       sui_price = fmul base_price (1 + 0.02 * real (i mod 3)),
                       timestamp = stamps ! i \<rparr>)
               (py_range days))
   }"

section \<open>The pool data fetcher\<close>

text \<open>What the GET to an upstream endpoint gives: an exception of the HTTP client
  (connection, timeout), or a response with its status and its body, the body being
  \<open>None\<close> when \<^verbatim>\<open>response.json()\<close> raises.\<close>

datatype upstream = Transport_failure | Http int "json option"

text \<open>The error bodies of \<^verbatim>\<open>fetch_volo_data\<close>, one per message of the source.\<close>

datatype fetch_error =
    Upstream_status int
  | Simulation_failed
  | Default_simulation_failed
  | Fetch_failed

record latest =
  latest_apr :: pyfloat
  latest_tvl :: pyfloat
  latest_sui_price :: pyfloat
  latest_timestamp :: json

type_synonym pool_result = "(fetch_error + latest \<times> pyfloat hist list) \<times> int"

text \<open>What the \<^verbatim>\<open>for pool in data\<close> loop iterates over, after \<^verbatim>\<open>data[:2]\<close> has been
  evaluated for the debug log: a list gives its elements, a string its characters (each a
  one-character string); anything else cannot be sliced or iterated and raises.\<close>

fun py_items :: "json \<Rightarrow> json list option" where
  "py_items (JArr xs) = Some xs"
| "py_items (JStr s) = Some (map (\<lambda>c. JStr [c]) s)"
| "py_items _ = None"

text \<open>Lines 69 to 81, the body of the loop for the pool whose \<^verbatim>\<open>coinType\<close> matched. The
  log line 72 reads \<^verbatim>\<open>df['apr'][0]\<close>, which raises KeyError on an empty frame; that and
  any failure of the conversions of lines 75 to 77 end in the outer handler.\<close>

definition matched_pool :: "env \<Rightarrow> json \<Rightarrow> int \<Rightarrow> pool_result" where
  "matched_pool e pool days =
     (case simulate_historical_data e pool days of
        None \<Rightarrow> (Inl Simulation_failed, 500)
      | Some df \<Rightarrow>
          (case (do {
                   _ \<leftarrow> (if df = [] then None else Some (apr (df ! 0)));
                   info \<leftarrow> py_get pool ''supplyIncentiveApyInfo'' (JObj []);
                   apy \<leftarrow> py_get info ''apy'' (JFloat 4.908);
                   a \<leftarrow> py_float apy;
                   supply \<leftarrow> py_get pool ''totalSupplyAmount'' (JInt 52969686454591258);
                   amount \<leftarrow> py_float supply;
                   oracle \<leftarrow> py_get pool ''oracle'' (JObj []);
                   price \<leftarrow> py_get oracle ''price'' (JFloat 4.34833514);
                   p \<leftarrow> py_float price;
                   ts \<leftarrow> py_get pool ''lastUpdateTimestamp'' (JStr (py_str (now_ms e)));
                   Some \<lparr> latest_apr = a, latest_tvl = div_1e9 amount,
                          latest_sui_price = p, latest_timestamp = ts \<rparr>
                 }) of
             None \<Rightarrow> (Inl Fetch_failed, 500)
           | Some l \<Rightarrow> (Inr (l, df), 200)))"

text \<open>Lines 82 to 101, after the loop found no pool: the hardcoded defaults, whose
  \<^verbatim>\<open>lastUpdateTimestamp\<close> is the string \<^verbatim>\<open>str(int(datetime.now().timestamp() * 1000))\<close>.\<close>

definition default_data :: "env \<Rightarrow> json" where
  "default_data e =
     JObj [(''lastUpdateTimestamp'', JStr (py_str (now_ms e))),
           (''supplyIncentiveApyInfo'', JObj [(''apy'', JStr ''4.908'')]),
           (''totalSupplyAmount'', JStr ''52969686454591258''),
           (''oracle'', JObj [(''price'', JStr ''4.34833514'')])]"

definition default_pool :: "env \<Rightarrow> int \<Rightarrow> pool_result" where
  "default_pool e days =
     (case simulate_historical_data e (default_data e) days of
        None \<Rightarrow> (Inl Default_simulation_failed, 500)
      | Some df \<Rightarrow>
          (Inr (\<lparr> latest_apr = Finite 4.908,
                  latest_tvl = Finite (52969686454591258 / 1000000000),
                  latest_sui_price = Finite 4.34833514,
                  latest_timestamp = JStr (py_str (now_ms e)) \<rparr>, df), 200))"

text \<open>Lines 67 and 68: the linear scan. \<^verbatim>\<open>pool.get("coinType")\<close> raises on anything but a
  dict; the comparison with the pool id holds for an equal string only.\<close>

fun scan_pools :: "env \<Rightarrow> string \<Rightarrow> int \<Rightarrow> json list \<Rightarrow> pool_result" where
  "scan_pools e pool_id days [] = default_pool e days"
| "scan_pools e pool_id days (pool # rest) =
     (case py_get pool ''coinType'' JNull of
        None \<Rightarrow> (Inl Fetch_failed, 500)
      | Some ct \<Rightarrow>
          if ct = JStr pool_id then matched_pool e pool days
          else scan_pools e pool_id days rest)"

definition fetch_volo_data :: "env \<Rightarrow> upstream \<Rightarrow> string \<Rightarrow> int \<Rightarrow> pool_result" where
  "fetch_volo_data e up pool_id days =
     (case up of
        Transport_failure \<Rightarrow> (Inl Fetch_failed, 500)
      | Http status body \<Rightarrow>
          if status \<noteq> 200 then (Inl (Upstream_status status), 500)
          else (case body of
                  None \<Rightarrow> (Inl Fetch_failed, 500)
                | Some data \<Rightarrow>
                    (case py_items data of
                       None \<Rightarrow> (Inl Fetch_failed, 500)
                     | Some pools \<Rightarrow> scan_pools e pool_id days pools)))"

section \<open>The rewards fetcher\<close>

record reward =
  amount :: pyfloat
  reward_timestamp :: json
  token_price :: pyfloat

text \<open>\<^verbatim>\<open>s.endswith(suffix)\<close>.\<close>

definition py_endswith :: "string \<Rightarrow> string \<Rightarrow> bool" where
  "py_endswith s sfx = (length sfx \<le> length s \<and> drop (length s - length sfx) s = sfx)"

text \<open>Line 125, the filter of the comprehension. \<^verbatim>\<open>and\<close> evaluates its right operand
  only when the pool matched; there \<^verbatim>\<open>endswith\<close> exists on a string only.\<close>

definition reward_selected :: "string \<Rightarrow> json \<Rightarrow> bool option" where
  "reward_selected pool_id reward = do {
     p \<leftarrow> py_get reward ''pool'' (JStr []);
     if p = JStr pool_id then do {
       ct \<leftarrow> py_get reward ''coin_type'' (JStr []);
       (case ct of JStr s \<Rightarrow> Some (py_endswith s ''::navx::NAVX'') | _ \<Rightarrow> None)
     } else Some False
   }"

text \<open>Lines 119 to 123, the record built for a selected reward.\<close>

definition reward_record :: "json \<Rightarrow> reward option" where
  "reward_record reward = do {
     a \<leftarrow> py_get reward ''amount'' (JInt 0);
     x \<leftarrow> py_float a;
     ts \<leftarrow> py_get reward ''timestamp'' (JStr []);
     tp \<leftarrow> py_get reward ''token_price'' (JFloat 0.144426003098488);
     price \<leftarrow> py_float tp;
     Some \<lparr> amount = div_1e9 x, reward_timestamp = ts, token_price = price \<rparr>
   }"

text \<open>The comprehension of lines 118 to 126: an exception at any element abandons the
  whole list.\<close>

fun collect_rewards :: "string \<Rightarrow> json list \<Rightarrow> reward list option" where
  "collect_rewards pool_id [] = Some []"
| "collect_rewards pool_id (reward # rest) = do {
     sel \<leftarrow> reward_selected pool_id reward;
     if sel then do {
       r \<leftarrow> reward_record reward;
       rs \<leftarrow> collect_rewards pool_id rest;
       Some (r # rs)
     } else collect_rewards pool_id rest
   }"

text \<open>The rewards endpoint is a function of the user address in its URL.\<close>

definition fetch_rewards :: "(string \<Rightarrow> upstream) \<Rightarrow> string \<Rightarrow> string \<Rightarrow> reward list \<times> int" where
  "fetch_rewards rewards_api user_address pool_id =
     (case rewards_api user_address of
        Transport_failure \<Rightarrow> ([], 200)
      | Http status body \<Rightarrow>
          if status \<noteq> 200 then ([], 200)
          else (case body of
                  None \<Rightarrow> ([], 200)
                | Some data \<Rightarrow>
                    (case py_items data of
                       None \<Rightarrow> ([], 200)
                     | Some items \<Rightarrow>
                         (case collect_rewards pool_id items of
                            None \<Rightarrow> ([], 200)
                          | Some rewards \<Rightarrow> (rewards, 200)))))"




subsection \<open>The filter and the record in the words of the specification\<close>

text \<open>The value of the field \<open>k\<close> of a reward object, \<open>dflt\<close> when the object lacks it.\<close>

definition json_field :: "json \<Rightarrow> string \<Rightarrow> json \<Rightarrow> json" where
  "json_field r k dflt =
     (case r of
        JObj kvs \<Rightarrow> (case dict_lookup kvs k of None \<Rightarrow> dflt | Some v \<Rightarrow> v)
      | _ \<Rightarrow> dflt)"

text \<open>The filter predicate: \<^verbatim>\<open>record.pool == poolId\<close> and \<^verbatim>\<open>record.coin_type\<close> ends with
  the literal suffix.\<close>

definition spec_selects :: "string \<Rightarrow> json \<Rightarrow> bool" where
  "spec_selects pool_id r =
     (json_field r ''pool'' (JStr []) = JStr pool_id
      \<and> (case json_field r ''coin_type'' (JStr []) of JStr s \<Rightarrow> suffix ''::navx::NAVX'' s | _ \<Rightarrow> False))"

text \<open>The record: the amount divided by \<open>10\<^sup>9\<close>, the token price with its default.\<close>

definition spec_record :: "json \<Rightarrow> reward" where
  "spec_record r =
     \<lparr> amount = div_1e9 (the (py_float (json_field r ''amount'' (JInt 0)))),
       reward_timestamp = json_field r ''timestamp'' (JStr []),
       token_price = the (py_float (json_field r ''token_price'' (JFloat 0.144426003098488))) \<rparr>"

text \<open>An entry on which neither the filter nor the record raises: an object, whose
  \<^verbatim>\<open>coin_type\<close> is a string if its pool is the pool id, and whose \<^verbatim>\<open>amount\<close> and
  \<^verbatim>\<open>token_price\<close> (or their defaults) \<^verbatim>\<open>float()\<close> accepts if the filter selects it.\<close>

definition reward_well_formed :: "string \<Rightarrow> json \<Rightarrow> bool" where
  "reward_well_formed pool_id r =
     (case r of
        JObj kvs \<Rightarrow>
          (if json_field r ''pool'' (JStr []) = JStr pool_id
           then (case json_field r ''coin_type'' (JStr []) of JStr s \<Rightarrow> True | _ \<Rightarrow> False)
           else True)
          \<and> (if spec_selects pool_id r
             then py_float (json_field r ''amount'' (JInt 0)) \<noteq> None
                  \<and> py_float (json_field r ''token_price'' (JFloat 0.144426003098488)) \<noteq> None
             else True)
      | _ \<Rightarrow> False)"

section \<open>The stake predictor\<close>

subsection \<open>The regression library\<close>

text \<open>\<^verbatim>\<open>Series.mean()\<close>.\<close>

definition mean :: "real list \<Rightarrow> real" where
  "mean xs = sum_list xs / real (length xs)"

record linear_model =
  coef_sui_price :: real
  coef_tvl :: real
  intercept :: real

text \<open>
  Modelled from the spec: \<^verbatim>\<open>LinearRegression\<close> is scikit-learn's, not code of this
  repository; the spec names it an ordinary least-squares linear regression with an
  intercept. \<open>LinearRegression_fit X y\<close> is the least-squares fit in closed form on the
  centred data: the solution of the normal equations when the two centred columns are
  linearly independent, the solution of least norm when they are not (the one the
  library's solver returns), and the intercept that makes the residuals sum to zero.
\<close>

definition LinearRegression_fit :: "(real \<times> real) list \<Rightarrow> real list \<Rightarrow> linear_model" where
  "LinearRegression_fit X y =
     (let m1 = mean (map fst X); m2 = mean (map snd X); my = mean y;
          rows = zip X y;
          s11 = (\<Sum>r\<leftarrow>rows. (fst (fst r) - m1) * (fst (fst r) - m1));
          s12 = (\<Sum>r\<leftarrow>rows. (fst (fst r) - m1) * (snd (fst r) - m2));
          s22 = (\<Sum>r\<leftarrow>rows. (snd (fst r) - m2) * (snd (fst r) - m2));
          b1 = (\<Sum>r\<leftarrow>rows. (fst (fst r) - m1) * (snd r - my));
          b2 = (\<Sum>r\<leftarrow>rows. (snd (fst r) - m2) * (snd r - my));
          det = s11 * s22 - s12 * s12;
          c1 = (if det \<noteq> 0 then (s22 * b1 - s12 * b2) / det
                else if s11 + s22 \<noteq> 0 then b1 / (s11 + s22) else 0);
          c2 = (if det \<noteq> 0 then (s11 * b2 - s12 * b1) / det
                else if s11 + s22 \<noteq> 0 then b2 / (s11 + s22) else 0)
      in \<lparr> coef_sui_price = c1, coef_tvl = c2, intercept = my - c1 * m1 - c2 * m2 \<rparr>)"

definition model_predict :: "linear_model \<Rightarrow> real \<times> real \<Rightarrow> real" where
  "model_predict m x = coef_sui_price m * fst x + coef_tvl m * snd x + intercept m"

text \<open>What "ordinary least squares" asks of a fitted model: no other choice of the two
  coefficients and the intercept has a smaller residual sum of squares on the data.\<close>

definition rss :: "linear_model \<Rightarrow> (real \<times> real) list \<Rightarrow> real list \<Rightarrow> real" where
  "rss m X y = (\<Sum>r\<leftarrow>zip X y. (snd r - model_predict m (fst r)) ^ 2)"

definition least_squares :: "linear_model \<Rightarrow> (real \<times> real) list \<Rightarrow> real list \<Rightarrow> bool" where
  "least_squares m X y = (\<forall>m'. rss m X y \<le> rss m' X y)"

subsection \<open>\<^verbatim>\<open>predict_optimal_stake\<close>\<close>

text \<open>
  The argument is \<^verbatim>\<open>None\<close> or a frame with (at least) the columns \<^verbatim>\<open>apr\<close>, \<^verbatim>\<open>tvl\<close> and
  \<^verbatim>\<open>sui_price\<close>. Past the length guard, \<^verbatim>\<open>X[-1:]\<close> is the last row of a frame that is not
  empty, and nothing in the \<^verbatim>\<open>try\<close> block raises on real-valued columns.
\<close>

definition predict_optimal_stake :: "(real, 'a) sample_scheme list option \<Rightarrow> bool" where
  "predict_optimal_stake df_opt =
     (case df_opt of
        None \<Rightarrow> False
      | Some df \<Rightarrow>
          if length df < 5 then False
          else (let X = map (\<lambda>r. (sui_price r, tvl r)) df;
                    y = map apr df;
                    model = LinearRegression_fit X y;
                    predicted_apr = model_predict model (last X);
                    avg_apr = mean y
                in predicted_apr > avg_apr * 1.1))"

subsection \<open>The decision rule in the words of the specification\<close>

text \<open>\<open>m\<close> is an ordinary least-squares regression of \<^verbatim>\<open>apr\<close> on (\<^verbatim>\<open>sui_price\<close>, \<^verbatim>\<open>tvl\<close>) over
  all records of the series.\<close>

definition regression_of :: "linear_model \<Rightarrow> (real, 'a) sample_scheme list \<Rightarrow> bool" where
  "regression_of m df = least_squares m (map (\<lambda>r. (sui_price r, tvl r)) df) (map apr df)"

text \<open>The rule for a fitted model \<open>m\<close>: its prediction for the last record of the series
  is strictly greater than 1.1 times the arithmetic mean of \<^verbatim>\<open>apr\<close> over the series.\<close>

definition spec_predict :: "linear_model \<Rightarrow> (real, 'a) sample_scheme list \<Rightarrow> bool" where
  "spec_predict m df =
     (model_predict m (sui_price (last df), tvl (last df)) > 1.1 * mean (map apr df))"

section \<open>The predict endpoint\<close>

text \<open>Python truthiness of a parsed JSON value (\<^verbatim>\<open>if not data\<close>).\<close>

fun py_truthy :: "json \<Rightarrow> bool" where
  "py_truthy JNull = False"
| "py_truthy (JBool b) = b"
| "py_truthy (JInt n) = (n \<noteq> 0)"
| "py_truthy (JFloat r) = (r \<noteq> 0)"
| "py_truthy (JStr s) = (s \<noteq> [])"
| "py_truthy (JArr xs) = (xs \<noteq> [])"
| "py_truthy (JObj kvs) = (kvs \<noteq> [])"

text \<open>The JSON-schema type \<^verbatim>\<open>number\<close>: an integer or a float, not a boolean.\<close>

fun number_value :: "json \<Rightarrow> real option" where
  "number_value (JInt n) = Some (real_of_int n)"
| "number_value (JFloat r) = Some r"
| "number_value _ = None"

text \<open>\<^verbatim>\<open>validate(instance=data, schema=predict_schema)\<close>: the instance is an object that
  has the three required properties, each of type number.\<close>

definition validate :: "json \<Rightarrow> bool" where
  "validate data =
     (case data of
        JObj kvs \<Rightarrow>
          list_all (\<lambda>k. case dict_lookup kvs k of None \<Rightarrow> False | Some v \<Rightarrow> number_value v \<noteq> None)
            [''apr'', ''tvl'', ''sui_price'']
      | _ \<Rightarrow> False)"

text \<open>Lines 192 to 196: the frame of one row, from \<^verbatim>\<open>data["apr"]\<close>, \<^verbatim>\<open>data["tvl"]\<close> and
  \<^verbatim>\<open>data["sui_price"]\<close>; a missing key or a value that is no number would raise.\<close>

definition request_frame :: "json \<Rightarrow> real sample list option" where
  "request_frame data =
     (case data of
        JObj kvs \<Rightarrow> do {
          a \<leftarrow> Option.bind (dict_lookup kvs ''apr'') number_value;
          t \<leftarrow> Option.bind (dict_lookup kvs ''tvl'') number_value;
          p \<leftarrow> Option.bind (dict_lookup kvs ''sui_price'') number_value;
          Some [\<lparr> apr = a, tvl = t, sui_price = p \<rparr>]
        }
      | _ \<Rightarrow> None)"

datatype predict_error = Invalid_input | Predict_failed

text \<open>The route \<^verbatim>\<open>/api/predict\<close>. Its argument is what \<^verbatim>\<open>request.get_json()\<close> gives:
  \<open>None\<close> when the call raises (the generic handler answers 500), otherwise the parsed
  body, \<open>JNull\<close> for Python's \<^verbatim>\<open>None\<close>.\<close>

definition predict :: "json option \<Rightarrow> (predict_error + bool) \<times> int" where
  "predict body =
     (case body of
        None \<Rightarrow> (Inl Predict_failed, 500)
      | Some data \<Rightarrow>
          if \<not> py_truthy data then (Inl Invalid_input, 400)
          else if \<not> validate data then (Inl Invalid_input, 400)
          else (case request_frame data of
                  None \<Rightarrow> (Inl Predict_failed, 500)
                | Some df \<Rightarrow> (Inr (predict_optimal_stake (Some df)), 200)))"

section \<open>The coercions on numbers of ordinary size\<close>

lemma float_limit_large: "10 ^ 300 < float_limit"
  by (simp add: float_limit_def)

lemma literal_float_small:
  assumes "\<bar>v\<bar> < 10 ^ 300"
  shows "literal_float v = Finite v"
  using assms float_limit_large by (simp add: literal_float_def)

lemma py_float_JInt_small:
  assumes "\<bar>n\<bar> < 10 ^ 300"
  shows "py_float (JInt n) = Some (Finite (real_of_int n))"
proof -
  have "\<bar>real_of_int n\<bar> < 10 ^ 300"
    using assms by (metis of_int_abs of_int_less_iff of_int_numeral of_int_power)
  then show ?thesis using float_limit_large by simp
qed

lemma py_truediv_JInt_small:
  assumes "\<bar>real_of_int n / d\<bar> < 10 ^ 300"
  shows "py_truediv (JInt n) d = Some (real_of_int n / d)"
  using assms float_limit_large by simp

lemma fmul_one [simp]: "fmul x 1 = x"
  by (cases x) simp_all

lemmas parse_float_defs =
  parse_float_def strip_def is_space_def is_digit_def parse_exponent_def digits_value_def
  lower_code_def

subsection \<open>The edges of the coercions\<close>

text \<open>An integer beyond the range of a double makes \<^verbatim>\<open>float\<close> raise; underscores between
  digits are read over; the words for the values that are not finite are read in any
  case; a literal beyond the range denotes an infinity.\<close>

lemma float_limit_small: "float_limit \<le> 10 ^ 309"
  by (simp add: float_limit_def)

lemma py_float_huge_integer: "py_float (JInt (10 ^ 309)) = None"
  using float_limit_small by simp

lemma parse_float_underscores:
  "parse_float ''2_5e8'' = Some (Finite 2500000000) \<and> parse_float ''1__0'' = None
   \<and> parse_float ''1_'' = None"
  by (simp add: parse_float_defs literal_float_small)

lemma parse_float_not_finite:
  "parse_float ''nan'' = Some NaN \<and> parse_float ''-Infinity'' = Some NegInf
   \<and> parse_float '' INF '' = Some PosInf \<and> parse_float ''1e309'' = Some PosInf"
  using float_limit_small by (simp add: parse_float_defs literal_float_def)

text \<open>\<^verbatim>\<open>datetime.fromtimestamp\<close> raises on the first day of year 1 and accepts the second
  (here in UTC).\<close>

lemma fromtimestamp_first_days:
  "fromtimestamp \<lparr> now_ms = 0, utcoffset = 0 \<rparr> (- 62135596800) = None
   \<and> fromtimestamp \<lparr> now_ms = 0, utcoffset = 0 \<rparr> (- 62135510401) = None
   \<and> fromtimestamp \<lparr> now_ms = 0, utcoffset = 0 \<rparr> (- 62135510400) = Some (- 62135510400)
   \<and> fromtimestamp \<lparr> now_ms = 0, utcoffset = 0 \<rparr> 253402300799 = Some 253402300799
   \<and> fromtimestamp \<lparr> now_ms = 0, utcoffset = 0 \<rparr> 253402300800 = None"
  by (simp add: fromtimestamp_def datetime_min_def datetime_max_def)

section \<open>Properties of the pool data fetcher\<close>

text \<open>The generator cannot read a snapshot whose \<^verbatim>\<open>lastUpdateTimestamp\<close> is a string:
  line 39 divides the string by 1000.\<close>

lemma base_values_string_timestamp:
  assumes "py_get latest_data ''lastUpdateTimestamp'' (JStr (py_str (now_ms e))) = Some (JStr s)"
  shows "base_values e latest_data = None"
  using assms by (simp add: base_values_def)

lemma simulate_string_timestamp:
  assumes "py_get latest_data ''lastUpdateTimestamp'' (JStr (py_str (now_ms e))) = Some (JStr s)"
  shows "simulate_historical_data e latest_data days = None"
  using base_values_string_timestamp [OF assms] by (simp add: simulate_historical_data_def)

lemma default_pool_fails: "default_pool e days = (Inl Default_simulation_failed, 500)"
proof -
  have "simulate_historical_data e (default_data e) days = None"
    by (rule simulate_string_timestamp [where s = "py_str (now_ms e)"])
       (simp add: default_data_def)
  then show ?thesis by (simp add: default_pool_def)
qed

lemma scan_pools_no_match:
  assumes "\<forall>p \<in> set pools. \<exists>ct. py_get p ''coinType'' JNull = Some ct \<and> ct \<noteq> JStr pool_id"
  shows "scan_pools e pool_id days pools = default_pool e days"
  using assms by (induction pools) auto

text \<open>
  C1. The claim: when the pools endpoint answers 200 with an array in which no entry has
  the pool id as its \<^verbatim>\<open>coinType\<close>, the fetcher returns a success with \<open>latest.apr = 4.908\<close>
  and a 30-record series built from the defaults. The code does not: the default
  snapshot carries its timestamp as a string, the generator fails on it, and every such
  call ends in the error "default data simulation failed" with status 500, whatever the
  clock and the number of days.
\<close>

theorem fetch_volo_data_no_match_fails:
  assumes "\<forall>p \<in> set pools. \<exists>ct. py_get p ''coinType'' JNull = Some ct \<and> ct \<noteq> JStr pool_id"
  shows "fetch_volo_data e (Http 200 (Some (JArr pools))) pool_id days
           = (Inl Default_simulation_failed, 500)"
  using scan_pools_no_match [OF assms] by (simp add: fetch_volo_data_def default_pool_fails)

theorem fetch_volo_data_no_match_fails_witness:
  "py_get (JObj [(''coinType'', JStr ''0x2::usdc::USDC'')]) ''coinType'' JNull
     = Some (JStr ''0x2::usdc::USDC'')
   \<and> JStr ''0x2::usdc::USDC'' \<noteq> JStr ''0x2::sui::SUI''
   \<and> fetch_volo_data \<lparr> now_ms = 1700000000000, utcoffset = 0 \<rparr>
        (Http 200 (Some (JArr [JObj [(''coinType'', JStr ''0x2::usdc::USDC'')]])))
        ''0x2::sui::SUI'' 30
       = (Inl Default_simulation_failed, 500)"
proof -
  have h: "\<forall>p \<in> set [JObj [(''coinType'', JStr ''0x2::usdc::USDC'')]].
             \<exists>ct. py_get p ''coinType'' JNull = Some ct \<and> ct \<noteq> JStr ''0x2::sui::SUI''"
    by simp
  show ?thesis
    using fetch_volo_data_no_match_fails [OF h, of "\<lparr> now_ms = 1700000000000, utcoffset = 0 \<rparr>" 30]
    by simp
qed

text \<open>
  C4. The claim: when the array has an entry whose \<^verbatim>\<open>coinType\<close> is the pool id, the fetcher
  returns a success built from that entry, with the per-field defaults for what the
  entry lacks, so that \<open>latest.apr\<close> is the entry's \<^verbatim>\<open>apy\<close> (10.0 in the example). The code
  does not: at the example entry, which has no \<^verbatim>\<open>lastUpdateTimestamp\<close>, the default
  timestamp is a string, the generator fails on it and the fetcher answers the error
  "data simulation failed" with status 500.
\<close>

theorem fetch_volo_data_example_entry_fails:
  "fetch_volo_data e
     (Http 200 (Some (JArr [JObj [(''coinType'', JStr ''0x2::sui::SUI''),
                                  (''supplyIncentiveApyInfo'', JObj [(''apy'', JStr ''10.0'')])]])))
     ''0x2::sui::SUI'' 30
   = (Inl Simulation_failed, 500)"
  by (simp add: fetch_volo_data_def matched_pool_def simulate_historical_data_def
        base_values_def)

section \<open>Properties of the synthetic history generator\<close>

lemma those_map_total:
  assumes "\<forall>x \<in> set xs. f x \<noteq> None"
  shows "those (map f xs) = Some (map (\<lambda>x. the (f x)) xs)"
  using assms by (induction xs) auto

lemma those_map_None:
  assumes "x \<in> set xs" and "f x = None"
  shows "those (map f xs) = None"
  using assms by (induction xs) (auto split: option.splits)

lemma simulate_SomeD:
  assumes "simulate_historical_data e latest_data days = Some df"
  shows "\<exists>base_time base_apr base_tvl base_price stamps.
           base_values e latest_data = Some (base_time, base_apr, base_tvl, base_price)
           \<and> those (map (minus_days base_time) (py_range days)) = Some stamps
           \<and> df = map (\<lambda>i. \<lparr> apr = fmul base_apr (1 + 0.01 * real (i mod 5)),
                              tvl = fmul base_tvl (1 - 0.005 * real (i mod 7)),
                              sui_price = fmul base_price (1 + 0.02 * real (i mod 3)),
                              timestamp = stamps ! i \<rparr>)
                      (py_range days)"
  using assms
  by (auto simp: simulate_historical_data_def split: Option.bind_splits prod.splits)

lemma minus_days_in_range:
  assumes "datetime_min \<le> bt - 86400 * int n" and "bt \<le> datetime_max" and "i \<le> n"
  shows "minus_days bt i = Some (bt - 86400 * int i)"
  using assms by (simp add: minus_days_def)

lemma base_values_time_range:
  assumes "base_values e latest_data = Some (bt, a, t, p)"
  shows "datetime_min \<le> bt \<and> bt \<le> datetime_max"
  using assms
  by (auto simp: base_values_def fromtimestamp_def Let_def split: Option.bind_splits if_splits)

text \<open>A snapshot with a numeric timestamp, used to instantiate the theorems below: the
  four base values the generator reads from it (the three defaults for what it lacks).\<close>

lemma base_values_numeric_snapshot:
  "base_values \<lparr> now_ms = 1700000000000, utcoffset = 0 \<rparr>
     (JObj [(''lastUpdateTimestamp'', JInt 1700000000000),
            (''supplyIncentiveApyInfo'', JObj [(''apy'', JStr ''10.0'')])])
   = Some (1700000000, Finite 10, Finite (52969686454591258 / 1000000000), Finite 4.34833514)"
  by (simp add: base_values_def py_int_def fromtimestamp_def datetime_min_def datetime_max_def
        parse_float_defs literal_float_small py_float_JInt_small py_truediv_JInt_small
      del: py_float.simps(1) py_truediv.simps(1))

text \<open>The series the generator returns, by the number of days.\<close>

lemma simulate_series:
  assumes "base_values e latest_data = Some (bt, a, t, p)"
  shows "(days \<le> 0 \<longrightarrow> simulate_historical_data e latest_data days = Some [])
       \<and> (0 < days \<and> datetime_min \<le> bt - 86400 * (days - 1) \<longrightarrow>
            (\<exists>df. simulate_historical_data e latest_data days = Some df
               \<and> int (length df) = days
               \<and> (\<forall>i < length df. timestamp (df ! i) = bt - 86400 * int i)
               \<and> (\<forall>i j. i < j \<and> j < length df \<longrightarrow> timestamp (df ! j) < timestamp (df ! i))))
       \<and> (0 < days \<and> bt - 86400 * (days - 1) < datetime_min \<longrightarrow>
            simulate_historical_data e latest_data days = None)"
proof (intro conjI impI)
  assume "days \<le> 0"
  then show "simulate_historical_data e latest_data days = Some []"
    using assms by (simp add: simulate_historical_data_def py_range_def)
next
  assume d: "0 < days \<and> datetime_min \<le> bt - 86400 * (days - 1)"
  define n where "n = nat days - 1"
  have n: "int n = days - 1" using d unfolding n_def by linarith
  have r: "\<forall>i \<in> set (py_range days). minus_days bt i = Some (bt - 86400 * int i)"
  proof
    fix i assume "i \<in> set (py_range days)"
    then have "i \<le> n" by (auto simp: py_range_def n_def)
    then show "minus_days bt i = Some (bt - 86400 * int i)"
      using minus_days_in_range [of bt n i] d n base_values_time_range [OF assms] by simp
  qed
  then have "\<forall>i \<in> set (py_range days). minus_days bt i \<noteq> None" by simp
  from those_map_total [OF this]
  have st: "those (map (minus_days bt) (py_range days))
              = Some (map (\<lambda>i. the (minus_days bt i)) (py_range days))" .
  define df where "df = map (\<lambda>i. \<lparr> apr = fmul a (1 + 0.01 * real (i mod 5)),
                       tvl = fmul t (1 - 0.005 * real (i mod 7)),
                       sui_price = fmul p (1 + 0.02 * real (i mod 3)),
                       timestamp = map (\<lambda>i. the (minus_days bt i)) (py_range days) ! i \<rparr>)
               (py_range days)"
  have s: "simulate_historical_data e latest_data days = Some df"
    using assms st by (simp add: simulate_historical_data_def df_def)
  have len: "int (length df) = days" using d by (simp add: df_def py_range_def)
  have ts: "timestamp (df ! i) = bt - 86400 * int i" if "i < length df" for i
  proof -
    have i: "i < nat days" using that by (simp add: df_def py_range_def)
    then have "i \<in> set (py_range days)" by (simp add: py_range_def)
    with r have "minus_days bt i = Some (bt - 86400 * int i)" by blast
    then show ?thesis using i by (simp add: df_def py_range_def)
  qed
  have "timestamp (df ! j) < timestamp (df ! i)" if "i < j \<and> j < length df" for i j
    using that ts [of i] ts [of j] by simp
  with s len ts
  show "\<exists>df. simulate_historical_data e latest_data days = Some df
               \<and> int (length df) = days
               \<and> (\<forall>i < length df. timestamp (df ! i) = bt - 86400 * int i)
               \<and> (\<forall>i j. i < j \<and> j < length df \<longrightarrow> timestamp (df ! j) < timestamp (df ! i))"
    by blast
next
  assume d: "0 < days \<and> bt - 86400 * (days - 1) < datetime_min"
  define n where "n = nat days - 1"
  have n: "int n = days - 1" using d unfolding n_def by linarith
  have i: "n \<in> set (py_range days)"
    using d by (simp add: py_range_def n_def)
  have m: "minus_days bt n = None"
    using d n by (simp add: minus_days_def)
  have "those (map (minus_days bt) (py_range days)) = None"
    by (rule those_map_None [where f = "minus_days bt" and x = n, OF i m])
  then show "simulate_historical_data e latest_data days = None"
    using assms by (simp add: simulate_historical_data_def)
qed

text \<open>
  C6. Whenever the generator returns a frame, each of its records \<open>i\<close> in \<open>[0, days)\<close>
  carries \<open>apr\<^sub>i = apr\<^sub>0 \<times> (1 + 0.01 \<times> (i mod 5))\<close>,
  \<open>tvl\<^sub>i = tvl\<^sub>0 \<times> (1 - 0.005 \<times> (i mod 7))\<close> and
  \<open>sui_price\<^sub>i = price\<^sub>0 \<times> (1 + 0.02 \<times> (i mod 3))\<close>, and record 0 carries the
  base values read from the snapshot unchanged. The products are the float products
  \<open>fmul\<close>: those of the real numbers on finite values.
\<close>

theorem simulate_historical_data_values:
  assumes "simulate_historical_data e latest_data days = Some df"
      and "int i < days"
  shows "\<exists>base_time base_apr base_tvl base_price.
           base_values e latest_data = Some (base_time, base_apr, base_tvl, base_price)
           \<and> i < length df
           \<and> apr (df ! 0) = base_apr \<and> tvl (df ! 0) = base_tvl \<and> sui_price (df ! 0) = base_price
           \<and> apr (df ! i) = fmul (apr (df ! 0)) (1 + 0.01 * real (i mod 5))
           \<and> tvl (df ! i) = fmul (tvl (df ! 0)) (1 - 0.005 * real (i mod 7))
           \<and> sui_price (df ! i) = fmul (sui_price (df ! 0)) (1 + 0.02 * real (i mod 3))"
proof -
  from simulate_SomeD [OF assms(1)] obtain base_time base_apr base_tvl base_price stamps where
    b: "base_values e latest_data = Some (base_time, base_apr, base_tvl, base_price)"
    and df: "df = map (\<lambda>i. \<lparr> apr = fmul base_apr (1 + 0.01 * real (i mod 5)),
                              tvl = fmul base_tvl (1 - 0.005 * real (i mod 7)),
                              sui_price = fmul base_price (1 + 0.02 * real (i mod 3)),
                              timestamp = stamps ! i \<rparr>)
                      (py_range days)"
    by blast
  have i: "i < nat days" and z: "0 < nat days" using assms(2) by linarith+
  show ?thesis
    using b i z by (simp add: df py_range_def)
qed

theorem simulate_historical_data_values_witness:
  "\<exists>df. simulate_historical_data \<lparr> now_ms = 1700000000000, utcoffset = 0 \<rparr>
           (JObj [(''lastUpdateTimestamp'', JInt 1700000000000),
                  (''supplyIncentiveApyInfo'', JObj [(''apy'', JStr ''10.0'')])]) 30 = Some df
        \<and> int 8 < 30 \<and> 8 < length df
        \<and> apr (df ! 0) = Finite 10
        \<and> tvl (df ! 0) = Finite (52969686454591258 / 1000000000)
        \<and> sui_price (df ! 0) = Finite 4.34833514
        \<and> apr (df ! 8) = Finite (10 * (1 + 0.01 * 3))
        \<and> tvl (df ! 8) = Finite (52969686454591258 / 1000000000 * (1 - 0.005 * 1))
        \<and> sui_price (df ! 8) = Finite (4.34833514 * (1 + 0.02 * 2))"
proof -
  have "datetime_min \<le> 1700000000 - 86400 * (30 - 1)"
    by (simp add: datetime_min_def)
  with simulate_series [OF base_values_numeric_snapshot, of 30]
  obtain df where df: "simulate_historical_data \<lparr> now_ms = 1700000000000, utcoffset = 0 \<rparr>
           (JObj [(''lastUpdateTimestamp'', JInt 1700000000000),
                  (''supplyIncentiveApyInfo'', JObj [(''apy'', JStr ''10.0'')])]) 30 = Some df"
    by auto
  have i: "int 8 < 30" by simp
  show ?thesis
    using simulate_historical_data_values [OF df i] df base_values_numeric_snapshot
    by auto
qed

text \<open>
  C7 as stated ("for every \<open>days > 0\<close> exactly \<open>days\<close> records") fails where the series would
  reach back past year 1: from a snapshot dated 1970-01-01 (all fields numeric), 800000
  days make \<^verbatim>\<open>base_time - timedelta(days=i)\<close> overflow, and the generator returns \<^verbatim>\<open>None\<close>.
\<close>

theorem simulate_historical_data_overflow_counterexample:
  "base_values \<lparr> now_ms = 1700000000000, utcoffset = 0 \<rparr>
     (JObj [(''lastUpdateTimestamp'', JInt 0)])
     = Some (0, Finite 4.908, Finite (52969686454591258 / 1000000000), Finite 4.34833514)
   \<and> simulate_historical_data \<lparr> now_ms = 1700000000000, utcoffset = 0 \<rparr>
       (JObj [(''lastUpdateTimestamp'', JInt 0)]) 800000 = None"
proof -
  have b: "base_values \<lparr> now_ms = 1700000000000, utcoffset = 0 \<rparr>
     (JObj [(''lastUpdateTimestamp'', JInt 0)])
     = Some (0, Finite 4.908, Finite (52969686454591258 / 1000000000), Finite 4.34833514)"
    by (simp add: base_values_def py_int_def fromtimestamp_def datetime_min_def datetime_max_def
        py_float_JInt_small py_truediv_JInt_small literal_float_small
      del: py_float.simps(1) py_truediv.simps(1))
  have m: "minus_days 0 799999 = None"
    by (simp add: minus_days_def datetime_min_def)
  have i: "(799999::nat) \<in> set (py_range 800000)"
    by (simp add: py_range_def)
  have "those (map (minus_days 0) (py_range 800000)) = None"
    by (rule those_map_None [where f = "minus_days 0" and x = 799999, OF i m])
  then show ?thesis using b
    by (simp add: simulate_historical_data_def)
qed

text \<open>
  C7, as amended. For a snapshot whose base values can be read: for \<open>days \<le> 0\<close> the
  generator returns the empty series; for \<open>days > 0\<close>, provided the oldest day
  \<open>base - (days - 1)\<close> days is not before \<^verbatim>\<open>datetime.min\<close>, it returns exactly \<open>days\<close>
  records with \<open>timestamp\<^sub>i = base - i\<close> days, hence ordered most recent first; when the
  oldest day is before \<^verbatim>\<open>datetime.min\<close> it returns \<^verbatim>\<open>None\<close>.
\<close>

theorem simulate_historical_data_series:
  assumes "base_values e latest_data = Some (bt, a, t, p)"
  shows "(days \<le> 0 \<longrightarrow> simulate_historical_data e latest_data days = Some [])
       \<and> (0 < days \<and> datetime_min \<le> bt - 86400 * (days - 1) \<longrightarrow>
            (\<exists>df. simulate_historical_data e latest_data days = Some df
               \<and> int (length df) = days
               \<and> (\<forall>i < length df. timestamp (df ! i) = bt - 86400 * int i)
               \<and> (\<forall>i j. i < j \<and> j < length df \<longrightarrow> timestamp (df ! j) < timestamp (df ! i))))
       \<and> (0 < days \<and> bt - 86400 * (days - 1) < datetime_min \<longrightarrow>
            simulate_historical_data e latest_data days = None)"
  using simulate_series [OF assms] .

theorem simulate_historical_data_series_witness:
  "simulate_historical_data \<lparr> now_ms = 1700000000000, utcoffset = 0 \<rparr>
           (JObj [(''lastUpdateTimestamp'', JInt 1700000000000),
                  (''supplyIncentiveApyInfo'', JObj [(''apy'', JStr ''10.0'')])]) 0 = Some []
   \<and> (\<exists>df. simulate_historical_data \<lparr> now_ms = 1700000000000, utcoffset = 0 \<rparr>
           (JObj [(''lastUpdateTimestamp'', JInt 1700000000000),
                  (''supplyIncentiveApyInfo'', JObj [(''apy'', JStr ''10.0'')])]) 30 = Some df
         \<and> length df = 30
         \<and> timestamp (df ! 0) = 1700000000
         \<and> timestamp (df ! 29) = 1700000000 - 86400 * 29
         \<and> timestamp (df ! 29) < timestamp (df ! 0))
   \<and> simulate_historical_data \<lparr> now_ms = 1700000000000, utcoffset = 0 \<rparr>
           (JObj [(''lastUpdateTimestamp'', JInt 1700000000000),
                  (''supplyIncentiveApyInfo'', JObj [(''apy'', JStr ''10.0'')])]) 900000 = None"
proof -
  have r: "datetime_min \<le> 1700000000 - 86400 * (30 - 1)"
    by (simp add: datetime_min_def)
  have o: "1700000000 - 86400 * (900000 - 1) < datetime_min"
    by (simp add: datetime_min_def)
  show ?thesis
    using r o simulate_historical_data_series [OF base_values_numeric_snapshot, of 0]
      simulate_historical_data_series [OF base_values_numeric_snapshot, of 30]
      simulate_historical_data_series [OF base_values_numeric_snapshot, of 900000]
    by auto
qed

section \<open>The matched pool when the timestamp is a number\<close>

text \<open>
  The branch of the fetcher for a matching pool does succeed when the generator can read
  the pool, which needs \<^verbatim>\<open>lastUpdateTimestamp\<close> to be present as a JSON number: the result
  carries the pool's values, the per-field defaults for \<^verbatim>\<open>apy\<close>, \<^verbatim>\<open>totalSupplyAmount\<close> and
  \<^verbatim>\<open>price\<close> where absent, and a series of \<open>days\<close> records.
\<close>

lemma matched_pool_numeric_timestamp:
  assumes b: "base_values e pool = Some (bt, a, t, p)"
      and d: "0 < days" and r: "datetime_min \<le> bt - 86400 * (days - 1)"
  shows "\<exists>df ts. matched_pool e pool days
                   = (Inr (\<lparr> latest_apr = a, latest_tvl = t, latest_sui_price = p,
                              latest_timestamp = ts \<rparr>, df), 200)
               \<and> int (length df) = days"
proof -
  from simulate_series [OF b, of days] d r
  obtain df where s: "simulate_historical_data e pool days = Some df"
    and len: "int (length df) = days"
    by blast
  have ne: "df \<noteq> []" using len d by auto
  from b obtain ts info apy supplied amt orc price where
    "py_get pool ''lastUpdateTimestamp'' (JStr (py_str (now_ms e))) = Some ts"
    "py_get pool ''supplyIncentiveApyInfo'' (JObj []) = Some info"
    "py_get info ''apy'' (JFloat 4.908) = Some apy"
    "py_float apy = Some a"
    "py_get pool ''totalSupplyAmount'' (JInt 52969686454591258) = Some supplied"
    "py_float supplied = Some amt" "t = div_1e9 amt"
    "py_get pool ''oracle'' (JObj []) = Some orc"
    "py_get orc ''price'' (JFloat 4.34833514) = Some price"
    "py_float price = Some p"
    by (auto simp: base_values_def split: Option.bind_splits)
  then have "matched_pool e pool days
               = (Inr (\<lparr> latest_apr = a, latest_tvl = t, latest_sui_price = p,
                          latest_timestamp = ts \<rparr>, df), 200)"
    using s ne by (simp add: matched_pool_def)
  with len show ?thesis by blast
qed

text \<open>The example entry of C4 with a numeric \<^verbatim>\<open>lastUpdateTimestamp\<close> added: success, with
  \<open>latest.apr = 10\<close> and 30 records.\<close>

lemma fetch_volo_data_example_entry_numeric_timestamp:
  "\<exists>df. fetch_volo_data \<lparr> now_ms = 1700000000000, utcoffset = 0 \<rparr>
     (Http 200 (Some (JArr [JObj [(''coinType'', JStr ''0x2::sui::SUI''),
                                  (''lastUpdateTimestamp'', JInt 1700000000000),
                                  (''supplyIncentiveApyInfo'', JObj [(''apy'', JStr ''10.0'')])]])))
     ''0x2::sui::SUI'' 30
   = (Inr (\<lparr> latest_apr = Finite 10,
              latest_tvl = Finite (52969686454591258 / 1000000000),
              latest_sui_price = Finite 4.34833514,
              latest_timestamp = JInt 1700000000000 \<rparr>, df), 200)
   \<and> length df = 30"
proof -
  let ?pool = "JObj [(''coinType'', JStr ''0x2::sui::SUI''),
                     (''lastUpdateTimestamp'', JInt 1700000000000),
                     (''supplyIncentiveApyInfo'', JObj [(''apy'', JStr ''10.0'')])]"
  let ?e = "\<lparr> now_ms = 1700000000000, utcoffset = 0 \<rparr>"
  have b: "base_values ?e ?pool
             = Some (1700000000, Finite 10, Finite (52969686454591258 / 1000000000), Finite 4.34833514)"
    by (simp add: base_values_def py_int_def fromtimestamp_def datetime_min_def datetime_max_def
        parse_float_defs literal_float_small py_float_JInt_small py_truediv_JInt_small
      del: py_float.simps(1) py_truediv.simps(1))
  have r: "datetime_min \<le> 1700000000 - 86400 * (30 - 1)"
    by (simp add: datetime_min_def)
  from matched_pool_numeric_timestamp [OF b _ r]
  obtain df ts where m: "matched_pool ?e ?pool 30
                   = (Inr (\<lparr> latest_apr = Finite 10,
                              latest_tvl = Finite (52969686454591258 / 1000000000),
                              latest_sui_price = Finite 4.34833514,
                              latest_timestamp = ts \<rparr>, df), 200)"
    and len: "int (length df) = 30"
    by auto
  have "py_get ?pool ''lastUpdateTimestamp'' (JStr (py_str (now_ms ?e))) = Some (JInt 1700000000000)"
    by simp
  have ts: "ts = JInt 1700000000000"
    using m b by (auto simp: matched_pool_def simulate_historical_data_def
                    split: option.splits Option.bind_splits)
  have "fetch_volo_data ?e (Http 200 (Some (JArr [?pool]))) ''0x2::sui::SUI'' 30
          = matched_pool ?e ?pool 30"
    by (simp add: fetch_volo_data_def)
  with m ts len show ?thesis by auto
qed

section \<open>Properties of the predictor's guard and of the predict endpoint\<close>

text \<open>
  C9. For an absent input and for a series of fewer than 5 records,
  \<^verbatim>\<open>predict_optimal_stake\<close> returns false; it is a value of the function, not an exception.
\<close>

theorem predict_optimal_stake_insufficient_data:
  "predict_optimal_stake None = False
   \<and> (length df < 5 \<longrightarrow> predict_optimal_stake (Some df) = False)"
  by (simp add: predict_optimal_stake_def)

theorem predict_optimal_stake_insufficient_data_witness:
  "predict_optimal_stake (None :: real sample list option) = False
   \<and> length [\<lparr> apr = 5, tvl = 100, sui_price = 4 \<rparr>, \<lparr> apr = 50, tvl = 1, sui_price = 9 \<rparr>] < 5
   \<and> predict_optimal_stake
        (Some [\<lparr> apr = 5, tvl = 100, sui_price = 4 \<rparr>, \<lparr> apr = 50, tvl = 1, sui_price = 9 \<rparr>])
       = False"
  using predict_optimal_stake_insufficient_data
          [of "[\<lparr> apr = 5, tvl = 100, sui_price = 4 \<rparr>, \<lparr> apr = 50, tvl = 1, sui_price = 9 \<rparr>]"]
  by simp

lemma validate_request_frame:
  assumes "validate data"
  shows "\<exists>r. request_frame data = Some [r]"
  using assms
  by (auto simp: validate_def request_frame_def split: json.splits option.splits)

lemma validate_truthy:
  assumes "validate data"
  shows "py_truthy data"
  using assms by (auto simp: validate_def split: json.splits)

text \<open>
  C3. For every request body that the schema accepts, the predict endpoint answers 200
  with \<open>predict = false\<close>: the frame it builds has one row, and the predictor's guard
  rejects a frame of fewer than 5 rows.
\<close>

theorem predict_endpoint_always_false:
  assumes "validate data"
  shows "predict (Some data) = (Inr False, 200)"
proof -
  obtain r where "request_frame data = Some [r]"
    using validate_request_frame [OF assms] by blast
  then show ?thesis
    using assms validate_truthy [OF assms]
    by (simp add: predict_def predict_optimal_stake_def)
qed

theorem predict_endpoint_always_false_witness:
  "validate (JObj [(''apr'', JFloat 50), (''tvl'', JInt 100), (''sui_price'', JFloat 4.3)])
   \<and> predict (Some (JObj [(''apr'', JFloat 50), (''tvl'', JInt 100), (''sui_price'', JFloat 4.3)]))
       = (Inr False, 200)"
proof -
  have h: "validate (JObj [(''apr'', JFloat 50), (''tvl'', JInt 100), (''sui_price'', JFloat 4.3)])"
    by (simp add: validate_def)
  show ?thesis using h predict_endpoint_always_false [OF h] by simp
qed

section \<open>Properties of the stake predictor\<close>

subsection \<open>Sums over the rows of a frame\<close>

lemma sum_list_lin3:
  fixes f g h k :: "'a \<Rightarrow> real"
  shows "(\<Sum>r\<leftarrow>R. f r * (a * g r + b * h r + c * k r))
           = a * (\<Sum>r\<leftarrow>R. f r * g r) + b * (\<Sum>r\<leftarrow>R. f r * h r) + c * (\<Sum>r\<leftarrow>R. f r * k r)"
  by (induction R) (simp_all add: algebra_simps)

lemma sum_list_square_add:
  fixes f g :: "'a \<Rightarrow> real"
  shows "(\<Sum>r\<leftarrow>R. (f r + g r) ^ 2)
           = (\<Sum>r\<leftarrow>R. (f r) ^ 2) + 2 * (\<Sum>r\<leftarrow>R. f r * g r) + (\<Sum>r\<leftarrow>R. (g r) ^ 2)"
  by (induction R) (simp_all add: algebra_simps power2_eq_square)

lemma sum_list_squares_nonneg:
  fixes f :: "'a \<Rightarrow> real"
  shows "0 \<le> (\<Sum>r\<leftarrow>R. f r * f r)"
  by (induction R) simp_all

lemma sum_list_squares_zero:
  fixes f :: "'a \<Rightarrow> real"
  assumes "(\<Sum>r\<leftarrow>R. f r * f r) = 0" and "r \<in> set R"
  shows "f r = 0"
  using assms
proof (induction R)
  case Nil
  then show ?case by simp
next
  case (Cons x R)
  have a: "0 \<le> f x * f x" by simp
  have b: "0 \<le> (\<Sum>r\<leftarrow>R. f r * f r)" by (rule sum_list_squares_nonneg)
  from Cons.prems(1) have "f x * f x + (\<Sum>r\<leftarrow>R. f r * f r) = 0" by simp
  with a b have "f x * f x = 0" and "(\<Sum>r\<leftarrow>R. f r * f r) = 0" by linarith+
  with Cons show ?case by auto
qed

lemma sum_list_centred:
  fixes f :: "'a \<Rightarrow> real"
  assumes "R \<noteq> []"
  shows "(\<Sum>r\<leftarrow>R. f r - (\<Sum>r\<leftarrow>R. f r) / real (length R)) = 0"
proof -
  have "(\<Sum>r\<leftarrow>R. f r - c) = (\<Sum>r\<leftarrow>R. f r) - real (length R) * c" for c
    by (induction R) (simp_all add: algebra_simps)
  then show ?thesis using assms by simp
qed

text \<open>Where the Gram determinant of two columns vanishes the columns are linearly
  dependent, and so are their cross products with any third column.\<close>

lemma dependent_columns:
  fixes u v w :: "'a \<Rightarrow> real"
  assumes "(\<Sum>r\<leftarrow>R. u r * u r) * (\<Sum>r\<leftarrow>R. v r * v r) - (\<Sum>r\<leftarrow>R. u r * v r) * (\<Sum>r\<leftarrow>R. u r * v r) = 0"
  shows "(\<Sum>r\<leftarrow>R. v r * v r) * (\<Sum>r\<leftarrow>R. u r * w r) = (\<Sum>r\<leftarrow>R. u r * v r) * (\<Sum>r\<leftarrow>R. v r * w r)"
proof -
  define s11 where "s11 = (\<Sum>r\<leftarrow>R. u r * u r)"
  define s12 where "s12 = (\<Sum>r\<leftarrow>R. u r * v r)"
  define s22 where "s22 = (\<Sum>r\<leftarrow>R. v r * v r)"
  define z where "z = (\<lambda>r. s22 * u r - s12 * v r)"
  have zu: "(\<Sum>r\<leftarrow>R. z r * u r) = s22 * s11 - s12 * s12"
  proof -
    have "(\<Sum>r\<leftarrow>R. u r * (s22 * u r + (- s12) * v r + 0 * u r))
            = s22 * s11 + (- s12) * s12 + 0 * s11"
      unfolding s11_def s12_def by (rule sum_list_lin3)
    moreover have "(\<lambda>r. z r * u r) = (\<lambda>r. u r * (s22 * u r + (- s12) * v r + 0 * u r))"
      by (auto simp: z_def algebra_simps)
    ultimately show ?thesis by simp
  qed
  have zv: "(\<Sum>r\<leftarrow>R. z r * v r) = s22 * s12 - s12 * s22"
  proof -
    have "(\<Sum>r\<leftarrow>R. v r * (s22 * u r + (- s12) * v r + 0 * u r))
            = s22 * (\<Sum>r\<leftarrow>R. v r * u r) + (- s12) * s22 + 0 * (\<Sum>r\<leftarrow>R. v r * u r)"
      unfolding s22_def by (rule sum_list_lin3)
    moreover have "(\<lambda>r. z r * v r) = (\<lambda>r. v r * (s22 * u r + (- s12) * v r + 0 * u r))"
      by (auto simp: z_def algebra_simps)
    moreover have "(\<Sum>r\<leftarrow>R. v r * u r) = s12"
      by (simp add: s12_def mult.commute)
    ultimately show ?thesis by simp
  qed
  have "(\<Sum>r\<leftarrow>R. z r * z r) = s22 * (\<Sum>r\<leftarrow>R. z r * u r) + (- s12) * (\<Sum>r\<leftarrow>R. z r * v r) + 0 * (\<Sum>r\<leftarrow>R. z r * u r)"
  proof -
    have "(\<lambda>r. z r * z r) = (\<lambda>r. z r * (s22 * u r + (- s12) * v r + 0 * u r))"
      by (auto simp: z_def algebra_simps)
    then show ?thesis using sum_list_lin3 [of z s22 u "- s12" v 0 u R] by simp
  qed
  also have "\<dots> = s22 * (s22 * s11 - s12 * s12)"
    unfolding zu zv by (simp add: algebra_simps)
  also have "\<dots> = 0"
    using assms by (simp add: s11_def s12_def s22_def mult.commute)
  finally have zz: "(\<Sum>r\<leftarrow>R. z r * z r) = 0" .
  have z0: "z r = 0" if "r \<in> set R" for r
    using sum_list_squares_zero [OF zz that] .
  have "(\<Sum>r\<leftarrow>R. w r * z r) = 0"
  proof -
    have "map (\<lambda>r. w r * z r) R = map (\<lambda>r. 0) R"
      using z0 by simp
    then have "(\<Sum>r\<leftarrow>R. w r * z r) = (\<Sum>r\<leftarrow>R. 0)"
      by (rule arg_cong)
    then show ?thesis by simp
  qed
  moreover have "(\<Sum>r\<leftarrow>R. w r * z r) = s22 * (\<Sum>r\<leftarrow>R. w r * u r) + (- s12) * (\<Sum>r\<leftarrow>R. w r * v r) + 0 * (\<Sum>r\<leftarrow>R. w r * u r)"
  proof -
    have "(\<lambda>r. w r * z r) = (\<lambda>r. w r * (s22 * u r + (- s12) * v r + 0 * u r))"
      by (auto simp: z_def algebra_simps)
    then show ?thesis using sum_list_lin3 [of w s22 u "- s12" v 0 u R] by simp
  qed
  ultimately have "s22 * (\<Sum>r\<leftarrow>R. w r * u r) = s12 * (\<Sum>r\<leftarrow>R. w r * v r)"
    by simp
  then show ?thesis
    by (simp add: s12_def s22_def mult.commute)
qed

lemma sum_list_zero_on:
  fixes f g :: "'a \<Rightarrow> real"
  assumes "\<And>r. r \<in> set R \<Longrightarrow> f r = 0"
  shows "(\<Sum>r\<leftarrow>R. f r * g r) = 0"
proof -
  have "map (\<lambda>r. f r * g r) R = map (\<lambda>r. 0) R"
    using assms by simp
  then have "(\<Sum>r\<leftarrow>R. f r * g r) = (\<Sum>r\<leftarrow>R. 0)"
    by (rule arg_cong)
  then show ?thesis by simp
qed

lemma solve_normal_equations:
  fixes u v w :: "'a \<Rightarrow> real"
  assumes s11: "s11 = (\<Sum>r\<leftarrow>R. u r * u r)"
      and s12: "s12 = (\<Sum>r\<leftarrow>R. u r * v r)"
      and s22: "s22 = (\<Sum>r\<leftarrow>R. v r * v r)"
      and b1: "b1 = (\<Sum>r\<leftarrow>R. u r * w r)"
      and b2: "b2 = (\<Sum>r\<leftarrow>R. v r * w r)"
      and c1: "c1 = (if s11 * s22 - s12 * s12 \<noteq> 0 then (s22 * b1 - s12 * b2) / (s11 * s22 - s12 * s12)
                     else if s11 + s22 \<noteq> 0 then b1 / (s11 + s22) else 0)"
      and c2: "c2 = (if s11 * s22 - s12 * s12 \<noteq> 0 then (s11 * b2 - s12 * b1) / (s11 * s22 - s12 * s12)
                     else if s11 + s22 \<noteq> 0 then b2 / (s11 + s22) else 0)"
  shows "c1 * s11 + c2 * s12 = b1 \<and> c1 * s12 + c2 * s22 = b2"
proof (cases "s11 * s22 - s12 * s12 = 0")
  case False
  define d where "d = s11 * s22 - s12 * s12"
  have d: "d \<noteq> 0" using False by (simp add: d_def)
  have c1': "c1 = (s22 * b1 - s12 * b2) / d" and c2': "c2 = (s11 * b2 - s12 * b1) / d"
    using False c1 c2 by (simp_all add: d_def)
  have "c1 * s11 + c2 * s12 = ((s22 * b1 - s12 * b2) * s11 + (s11 * b2 - s12 * b1) * s12) / d"
    by (simp add: c1' c2' add_divide_distrib)
  also have "(s22 * b1 - s12 * b2) * s11 + (s11 * b2 - s12 * b1) * s12 = b1 * d"
    by (simp add: d_def algebra_simps)
  finally have e1: "c1 * s11 + c2 * s12 = b1" using d by simp
  have "c1 * s12 + c2 * s22 = ((s22 * b1 - s12 * b2) * s12 + (s11 * b2 - s12 * b1) * s22) / d"
    by (simp add: c1' c2' add_divide_distrib)
  also have "(s22 * b1 - s12 * b2) * s12 + (s11 * b2 - s12 * b1) * s22 = b2 * d"
    by (simp add: d_def algebra_simps)
  finally have e2: "c1 * s12 + c2 * s22 = b2" using d by simp
  from e1 e2 show ?thesis by simp
next
  case True
  have k1: "s22 * b1 = s12 * b2"
    using dependent_columns [where R = R and u = u and v = v and w = w] True by (simp add: s11 s12 s22 b1 b2)
  have s21: "(\<Sum>r\<leftarrow>R. v r * u r) = s12"
    by (simp add: s12 mult.commute)
  have "(\<Sum>r\<leftarrow>R. v r * v r) * (\<Sum>r\<leftarrow>R. u r * u r) - (\<Sum>r\<leftarrow>R. v r * u r) * (\<Sum>r\<leftarrow>R. v r * u r) = 0"
    using True unfolding s21 by (simp add: s11 s22 mult.commute)
  from dependent_columns [where R = R and u = v and v = u and w = w, OF this]
  have k2: "s11 * b2 = s12 * b1"
    unfolding s21 by (simp add: s11 b1 b2)
  show ?thesis
  proof (cases "s11 + s22 = 0")
    case False
    define l where "l = s11 + s22"
    have l: "l \<noteq> 0" using False by (simp add: l_def)
    have c1': "c1 = b1 / l" and c2': "c2 = b2 / l"
      using True False c1 c2 by (simp_all add: l_def)
    have "c1 * s11 + c2 * s12 = (b1 * s11 + s12 * b2) / l"
      by (simp add: c1' c2' add_divide_distrib mult.commute)
    also have "b1 * s11 + s12 * b2 = b1 * l"
      using k1 by (simp add: l_def algebra_simps)
    finally have e1: "c1 * s11 + c2 * s12 = b1" using l by simp
    have "c1 * s12 + c2 * s22 = (s12 * b1 + b2 * s22) / l"
      by (simp add: c1' c2' add_divide_distrib mult.commute)
    also have "s12 * b1 + b2 * s22 = b2 * l"
      using k2 by (simp add: l_def algebra_simps)
    finally have e2: "c1 * s12 + c2 * s22 = b2" using l by simp
    from e1 e2 show ?thesis by simp
  next
    case tr: True
    have n1: "0 \<le> s11" and n2: "0 \<le> s22"
      unfolding s11 s22 by (rule sum_list_squares_nonneg)+
    with tr have z1: "s11 = 0" and z2: "s22 = 0" by linarith+
    have "u r = 0" if "r \<in> set R" for r
      using sum_list_squares_zero [where f = u and R = R and r = r] z1 that by (simp add: s11)
    then have "b1 = 0" unfolding b1 by (rule sum_list_zero_on)
    moreover have "v r = 0" if "r \<in> set R" for r
      using sum_list_squares_zero [where f = v and R = R and r = r] z2 that by (simp add: s22)
    then have "b2 = 0" unfolding b2 by (rule sum_list_zero_on)
    moreover have "c1 = 0" and "c2 = 0" using True tr c1 c2 by simp_all
    ultimately show ?thesis by simp
  qed
qed

subsection \<open>The fit is a least-squares fit\<close>

lemma fit_residuals_orthogonal:
  assumes len: "length X = length y"
  defines "m \<equiv> LinearRegression_fit X y"
  defines "e \<equiv> (\<lambda>r. snd r - model_predict m (fst r))"
  shows "(\<Sum>r\<leftarrow>zip X y. e r * 1) = 0
       \<and> (\<Sum>r\<leftarrow>zip X y. e r * fst (fst r)) = 0
       \<and> (\<Sum>r\<leftarrow>zip X y. e r * snd (fst r)) = 0"
proof (cases "X = []")
  case True
  then show ?thesis by simp
next
  case False
  define R where "R = zip X y"
  have R: "R \<noteq> []" and lenR: "length R = length X"
    using False len by (auto simp: R_def)
  define m1 where "m1 = mean (map fst X)"
  define m2 where "m2 = mean (map snd X)"
  define my where "my = mean y"
  define u where "u = (\<lambda>r :: (real \<times> real) \<times> real. fst (fst r) - m1)"
  define v where "v = (\<lambda>r :: (real \<times> real) \<times> real. snd (fst r) - m2)"
  define w where "w = (\<lambda>r :: (real \<times> real) \<times> real. snd r - my)"
  define s11 where "s11 = (\<Sum>r\<leftarrow>R. u r * u r)"
  define s12 where "s12 = (\<Sum>r\<leftarrow>R. u r * v r)"
  define s22 where "s22 = (\<Sum>r\<leftarrow>R. v r * v r)"
  define b1 where "b1 = (\<Sum>r\<leftarrow>R. u r * w r)"
  define b2 where "b2 = (\<Sum>r\<leftarrow>R. v r * w r)"
  define c1 where "c1 = coef_sui_price m"
  define c2 where "c2 = coef_tvl m"
  have c1: "c1 = (if s11 * s22 - s12 * s12 \<noteq> 0 then (s22 * b1 - s12 * b2) / (s11 * s22 - s12 * s12)
                     else if s11 + s22 \<noteq> 0 then b1 / (s11 + s22) else 0)"
    unfolding c1_def m_def LinearRegression_fit_def Let_def s11_def s12_def s22_def b1_def b2_def
      u_def v_def w_def m1_def m2_def my_def R_def by simp
  have c2: "c2 = (if s11 * s22 - s12 * s12 \<noteq> 0 then (s11 * b2 - s12 * b1) / (s11 * s22 - s12 * s12)
                     else if s11 + s22 \<noteq> 0 then b2 / (s11 + s22) else 0)"
    unfolding c2_def m_def LinearRegression_fit_def Let_def s11_def s12_def s22_def b1_def b2_def
      u_def v_def w_def m1_def m2_def my_def R_def by simp
  have b0: "intercept m = my - c1 * m1 - c2 * m2"
    unfolding c1_def c2_def m_def LinearRegression_fit_def Let_def m1_def m2_def my_def by simp
  from solve_normal_equations [OF s11_def s12_def s22_def b1_def b2_def c1 c2]
  have n1: "c1 * s11 + c2 * s12 = b1" and n2: "c1 * s12 + c2 * s22 = b2" by simp_all
  have fstR: "map fst R = X" and sndR: "map snd R = y"
    using len by (simp_all add: R_def)
  have "map (\<lambda>r. fst (fst r)) R = map fst (map fst R)"
    by simp
  then have "map fst X = map (\<lambda>r. fst (fst r)) R"
    by (simp only: fstR)
  then have m1': "m1 = (\<Sum>r\<leftarrow>R. fst (fst r)) / real (length R)"
    by (simp add: m1_def mean_def lenR)
  have "map (\<lambda>r. snd (fst r)) R = map snd (map fst R)"
    by simp
  then have "map snd X = map (\<lambda>r. snd (fst r)) R"
    by (simp only: fstR)
  then have m2': "m2 = (\<Sum>r\<leftarrow>R. snd (fst r)) / real (length R)"
    by (simp add: m2_def mean_def lenR)
  have my': "my = (\<Sum>r\<leftarrow>R. snd r) / real (length R)"
    using sndR len by (simp add: my_def mean_def lenR)
  have su: "(\<Sum>r\<leftarrow>R. u r) = 0"
    unfolding u_def m1' by (rule sum_list_centred [OF R])
  have sv: "(\<Sum>r\<leftarrow>R. v r) = 0"
    unfolding v_def m2' by (rule sum_list_centred [OF R])
  have sw: "(\<Sum>r\<leftarrow>R. w r) = 0"
    unfolding w_def my' by (rule sum_list_centred [OF R])
  have e: "e r = 1 * w r + (- c1) * u r + (- c2) * v r" for r
    by (simp add: e_def model_predict_def b0 c1_def [symmetric] c2_def [symmetric]
          u_def v_def w_def algebra_simps)
  have e0: "(\<Sum>r\<leftarrow>R. e r * 1) = 0"
  proof -
    have "(\<Sum>r\<leftarrow>R. 1 * (1 * w r + (- c1) * u r + (- c2) * v r))
            = 1 * (\<Sum>r\<leftarrow>R. 1 * w r) + (- c1) * (\<Sum>r\<leftarrow>R. 1 * u r) + (- c2) * (\<Sum>r\<leftarrow>R. 1 * v r)"
      by (rule sum_list_lin3)
    then show ?thesis using su sv sw by (simp add: e)
  qed
  have eu: "(\<Sum>r\<leftarrow>R. e r * u r) = 0"
  proof -
    have "(\<Sum>r\<leftarrow>R. u r * (1 * w r + (- c1) * u r + (- c2) * v r))
            = 1 * b1 + (- c1) * s11 + (- c2) * s12"
      unfolding b1_def s11_def s12_def by (rule sum_list_lin3)
    moreover have "(\<lambda>r. e r * u r) = (\<lambda>r. u r * (1 * w r + (- c1) * u r + (- c2) * v r))"
      by (simp add: e mult.commute)
    ultimately show ?thesis using n1 by simp
  qed
  have ev: "(\<Sum>r\<leftarrow>R. e r * v r) = 0"
  proof -
    have "(\<Sum>r\<leftarrow>R. v r * (1 * w r + (- c1) * u r + (- c2) * v r))
            = 1 * b2 + (- c1) * (\<Sum>r\<leftarrow>R. v r * u r) + (- c2) * s22"
      unfolding b2_def s22_def by (rule sum_list_lin3)
    moreover have "(\<lambda>r. e r * v r) = (\<lambda>r. v r * (1 * w r + (- c1) * u r + (- c2) * v r))"
      by (simp add: e mult.commute)
    moreover have "(\<Sum>r\<leftarrow>R. v r * u r) = s12"
      by (simp add: s12_def mult.commute)
    ultimately show ?thesis using n2 by simp
  qed
  have ex1: "(\<Sum>r\<leftarrow>R. e r * fst (fst r)) = 0"
  proof -
    have "(\<Sum>r\<leftarrow>R. e r * (1 * u r + m1 * 1 + 0 * 1))
            = 1 * (\<Sum>r\<leftarrow>R. e r * u r) + m1 * (\<Sum>r\<leftarrow>R. e r * 1) + 0 * (\<Sum>r\<leftarrow>R. e r * 1)"
      by (rule sum_list_lin3)
    moreover have "(\<lambda>r. e r * fst (fst r)) = (\<lambda>r. e r * (1 * u r + m1 * 1 + 0 * 1))"
      by (simp add: u_def)
    ultimately show ?thesis using eu e0 by simp
  qed
  have ex2: "(\<Sum>r\<leftarrow>R. e r * snd (fst r)) = 0"
  proof -
    have "(\<Sum>r\<leftarrow>R. e r * (1 * v r + m2 * 1 + 0 * 1))
            = 1 * (\<Sum>r\<leftarrow>R. e r * v r) + m2 * (\<Sum>r\<leftarrow>R. e r * 1) + 0 * (\<Sum>r\<leftarrow>R. e r * 1)"
      by (rule sum_list_lin3)
    moreover have "(\<lambda>r. e r * snd (fst r)) = (\<lambda>r. e r * (1 * v r + m2 * 1 + 0 * 1))"
      by (simp add: v_def)
    ultimately show ?thesis using ev e0 by simp
  qed
  from e0 ex1 ex2 show ?thesis unfolding R_def by simp
qed

text \<open>The residual sum of squares of any model is that of the fit plus the squared
  distance of its predictions from the fit's.\<close>

lemma rss_decomposition:
  assumes len: "length X = length y"
  shows "rss m' X y = rss (LinearRegression_fit X y) X y
           + (\<Sum>r\<leftarrow>zip X y. (model_predict (LinearRegression_fit X y) (fst r) - model_predict m' (fst r)) ^ 2)"
proof -
  define m where "m = LinearRegression_fit X y"
  define e where "e = (\<lambda>r :: (real \<times> real) \<times> real. snd r - model_predict m (fst r))"
  define d where "d = (\<lambda>r :: (real \<times> real) \<times> real. model_predict m (fst r) - model_predict m' (fst r))"
  define R where "R = zip X y"
  from fit_residuals_orthogonal [OF len]
  have e0: "(\<Sum>r\<leftarrow>R. e r * 1) = 0" and e1: "(\<Sum>r\<leftarrow>R. e r * fst (fst r)) = 0"
    and e2: "(\<Sum>r\<leftarrow>R. e r * snd (fst r)) = 0"
    unfolding e_def m_def R_def by simp_all
  have d: "d r = (coef_sui_price m - coef_sui_price m') * fst (fst r)
               + (coef_tvl m - coef_tvl m') * snd (fst r)
               + (intercept m - intercept m') * 1" for r
    by (simp add: d_def model_predict_def algebra_simps)
  have ed: "(\<Sum>r\<leftarrow>R. e r * d r) = 0"
    unfolding d using sum_list_lin3 [where f = e and R = R and g = "\<lambda>r. fst (fst r)"
        and h = "\<lambda>r. snd (fst r)" and k = "\<lambda>r. 1"
        and a = "coef_sui_price m - coef_sui_price m'" and b = "coef_tvl m - coef_tvl m'"
        and c = "intercept m - intercept m'"] e0 e1 e2
    by simp
  have "rss m' X y = (\<Sum>r\<leftarrow>R. (e r + d r) ^ 2)"
    by (simp add: rss_def R_def e_def d_def)
  also have "\<dots> = (\<Sum>r\<leftarrow>R. (e r) ^ 2) + 2 * (\<Sum>r\<leftarrow>R. e r * d r) + (\<Sum>r\<leftarrow>R. (d r) ^ 2)"
    by (rule sum_list_square_add)
  also have "\<dots> = rss m X y + (\<Sum>r\<leftarrow>R. (d r) ^ 2)"
  proof -
    have "(\<Sum>r\<leftarrow>R. (e r) ^ 2) = rss m X y"
      by (simp add: rss_def R_def e_def)
    then show ?thesis by (simp add: ed)
  qed
  finally show ?thesis unfolding m_def d_def R_def .
qed

lemma LinearRegression_fit_least_squares:
  assumes "length X = length y"
  shows "least_squares (LinearRegression_fit X y) X y"
proof -
  have "rss (LinearRegression_fit X y) X y \<le> rss m' X y" for m'
  proof -
    have "0 \<le> (\<Sum>r\<leftarrow>zip X y. (model_predict (LinearRegression_fit X y) (fst r) - model_predict m' (fst r)) ^ 2)"
      by (rule sum_list_nonneg) auto
    then show ?thesis using rss_decomposition [OF assms, of m'] by simp
  qed
  then show ?thesis by (simp add: least_squares_def)
qed

text \<open>Any least-squares model predicts, on the rows of the data, what the fit predicts.\<close>

lemma least_squares_fitted_values:
  assumes len: "length X = length y" and ls: "least_squares m' X y" and x: "x \<in> set X"
  shows "model_predict m' x = model_predict (LinearRegression_fit X y) x"
proof -
  define d where "d = (\<lambda>r :: (real \<times> real) \<times> real. model_predict (LinearRegression_fit X y) (fst r) - model_predict m' (fst r))"
  have nn: "0 \<le> (\<Sum>r\<leftarrow>zip X y. (d r) ^ 2)"
    by (rule sum_list_nonneg) auto
  have "rss m' X y \<le> rss (LinearRegression_fit X y) X y"
    using ls by (simp add: least_squares_def)
  with rss_decomposition [OF len, of m'] nn
  have "(\<Sum>r\<leftarrow>zip X y. d r * d r) = 0"
    by (simp add: d_def power2_eq_square)
  moreover from x len obtain r where "r \<in> set (zip X y)" and "fst r = x"
    by (metis fst_conv in_set_impl_in_set_zip1)
  ultimately have "d r = 0" and "fst r = x"
    using sum_list_squares_zero [where f = d and R = "zip X y" and r = r] by simp_all
  then show ?thesis by (simp add: d_def)
qed

subsection \<open>The decision\<close>

lemma predict_optimal_stake_unfold:
  assumes "5 \<le> length df"
  shows "predict_optimal_stake (Some df)
           = spec_predict (LinearRegression_fit (map (\<lambda>r. (sui_price r, tvl r)) df) (map apr df)) df"
proof -
  have "df \<noteq> []" using assms by auto
  then have "last (map (\<lambda>r. (sui_price r, tvl r)) df) = (sui_price (last df), tvl (last df))"
    by (simp add: last_map)
  then show ?thesis
    using assms by (simp add: predict_optimal_stake_def spec_predict_def Let_def mult.commute)
qed

lemma regression_decision:
  assumes "5 \<le> length df" and "regression_of m df"
  shows "predict_optimal_stake (Some df) = spec_predict m df"
proof -
  let ?X = "map (\<lambda>r. (sui_price r, tvl r)) df"
  let ?y = "map apr df"
  have ne: "df \<noteq> []" using assms(1) by auto
  have len: "length ?X = length ?y" by simp
  have "(sui_price (last df), tvl (last df)) \<in> set ?X"
    using ne by (simp add: image_iff) (metis last_in_set)
  from least_squares_fitted_values [OF len _ this, of m] assms(2)
  have "model_predict m (sui_price (last df), tvl (last df))
          = model_predict (LinearRegression_fit ?X ?y) (sui_price (last df), tvl (last df))"
    by (simp add: regression_of_def)
  then show ?thesis
    by (simp add: predict_optimal_stake_unfold [OF assms(1)] spec_predict_def)
qed

text \<open>
  C2. For every series of at least 5 records, the model \<^verbatim>\<open>predict_optimal_stake\<close> fits is
  an ordinary least-squares regression of \<^verbatim>\<open>apr\<close> on (\<^verbatim>\<open>sui_price\<close>, \<^verbatim>\<open>tvl\<close>) over all
  records, and the function returns true if and only if the regression's prediction for
  the last record of the series is strictly greater than 1.1 times the mean \<^verbatim>\<open>apr\<close> of the
  series; the answer is the same for every least-squares regression of the series,
  since all of them predict the same value on a record of the series.
\<close>

theorem predict_optimal_stake_regression:
  assumes "5 \<le> length df"
  shows "regression_of (LinearRegression_fit (map (\<lambda>r. (sui_price r, tvl r)) df) (map apr df)) df
       \<and> (\<forall>m. regression_of m df \<longrightarrow> predict_optimal_stake (Some df) = spec_predict m df)"
  using regression_decision [OF assms] LinearRegression_fit_least_squares
  by (simp add: regression_of_def)

theorem predict_optimal_stake_regression_witness:
  "5 \<le> length
     [\<lparr> apr = 1, tvl = 5, sui_price = 1 \<rparr>, \<lparr> apr = 2, tvl = 3, sui_price = 2 \<rparr>,
      \<lparr> apr = 3, tvl = 8, sui_price = 3 \<rparr>, \<lparr> apr = 4, tvl = 1, sui_price = 4 \<rparr>,
      \<lparr> apr = 10, tvl = 2, sui_price = 10 \<rparr>]
   \<and> regression_of
        (LinearRegression_fit
           (map (\<lambda>r. (sui_price r, tvl r))
              [\<lparr> apr = 1, tvl = 5, sui_price = 1 \<rparr>, \<lparr> apr = 2, tvl = 3, sui_price = 2 \<rparr>,
      \<lparr> apr = 3, tvl = 8, sui_price = 3 \<rparr>, \<lparr> apr = 4, tvl = 1, sui_price = 4 \<rparr>,
      \<lparr> apr = 10, tvl = 2, sui_price = 10 \<rparr>])
           (map apr
              [\<lparr> apr = 1, tvl = 5, sui_price = 1 \<rparr>, \<lparr> apr = 2, tvl = 3, sui_price = 2 \<rparr>,
      \<lparr> apr = 3, tvl = 8, sui_price = 3 \<rparr>, \<lparr> apr = 4, tvl = 1, sui_price = 4 \<rparr>,
      \<lparr> apr = 10, tvl = 2, sui_price = 10 \<rparr>]))
        [\<lparr> apr = 1, tvl = 5, sui_price = 1 \<rparr>, \<lparr> apr = 2, tvl = 3, sui_price = 2 \<rparr>,
      \<lparr> apr = 3, tvl = 8, sui_price = 3 \<rparr>, \<lparr> apr = 4, tvl = 1, sui_price = 4 \<rparr>,
      \<lparr> apr = 10, tvl = 2, sui_price = 10 \<rparr>]
   \<and> predict_optimal_stake
        (Some [\<lparr> apr = 1, tvl = 5, sui_price = 1 \<rparr>, \<lparr> apr = 2, tvl = 3, sui_price = 2 \<rparr>,
      \<lparr> apr = 3, tvl = 8, sui_price = 3 \<rparr>, \<lparr> apr = 4, tvl = 1, sui_price = 4 \<rparr>,
      \<lparr> apr = 10, tvl = 2, sui_price = 10 \<rparr>])
       = spec_predict \<lparr> coef_sui_price = 1, coef_tvl = 0, intercept = 0 \<rparr>
           [\<lparr> apr = 1, tvl = 5, sui_price = 1 \<rparr>, \<lparr> apr = 2, tvl = 3, sui_price = 2 \<rparr>,
      \<lparr> apr = 3, tvl = 8, sui_price = 3 \<rparr>, \<lparr> apr = 4, tvl = 1, sui_price = 4 \<rparr>,
      \<lparr> apr = 10, tvl = 2, sui_price = 10 \<rparr>]
   \<and> spec_predict \<lparr> coef_sui_price = 1, coef_tvl = 0, intercept = 0 \<rparr>
         [\<lparr> apr = 1, tvl = 5, sui_price = 1 \<rparr>, \<lparr> apr = 2, tvl = 3, sui_price = 2 \<rparr>,
      \<lparr> apr = 3, tvl = 8, sui_price = 3 \<rparr>, \<lparr> apr = 4, tvl = 1, sui_price = 4 \<rparr>,
      \<lparr> apr = 10, tvl = 2, sui_price = 10 \<rparr>]"
proof -
  let ?df = "[\<lparr> apr = 1, tvl = 5, sui_price = 1 \<rparr>, \<lparr> apr = 2, tvl = 3, sui_price = 2 \<rparr>,
      \<lparr> apr = 3, tvl = 8, sui_price = 3 \<rparr>, \<lparr> apr = 4, tvl = 1, sui_price = 4 \<rparr>,
      \<lparr> apr = 10, tvl = 2, sui_price = 10 \<rparr>]"
  let ?m = "\<lparr> coef_sui_price = 1, coef_tvl = 0, intercept = 0 \<rparr>"
  have h: "5 \<le> length ?df" by simp
  have z: "rss ?m (map (\<lambda>r. (sui_price r, tvl r)) ?df) (map apr ?df) = 0"
    by (simp add: rss_def model_predict_def)
  have "0 \<le> rss m' (map (\<lambda>r. (sui_price r, tvl r)) ?df) (map apr ?df)" for m'
    unfolding rss_def by (rule sum_list_nonneg) auto
  with z have r: "regression_of ?m ?df"
    by (simp only: regression_of_def least_squares_def) simp
  have s: "spec_predict ?m ?df"
    by (simp add: spec_predict_def model_predict_def mean_def)
  from predict_optimal_stake_regression [OF h]
  have a: "regression_of
        (LinearRegression_fit (map (\<lambda>r. (sui_price r, tvl r)) ?df) (map apr ?df)) ?df"
    and b: "\<forall>m. regression_of m ?df \<longrightarrow> predict_optimal_stake (Some ?df) = spec_predict m ?df"
    by blast+
  from b r have "predict_optimal_stake (Some ?df) = spec_predict ?m ?df" by blast
  with h a s show ?thesis by blast
qed

text \<open>On a flat series every least-squares model predicts the common \<^verbatim>\<open>apr\<close>, which is
  also the mean; the comparison with 1.1 times the mean then turns on its sign.\<close>

lemma flat_series_prediction:
  assumes len: "5 \<le> length df"
      and flat: "\<forall>r \<in> set df. apr r = a \<and> tvl r = t \<and> sui_price r = p"
  shows "model_predict
           (LinearRegression_fit (map (\<lambda>r. (sui_price r, tvl r)) df) (map apr df))
           (sui_price (last df), tvl (last df)) = a
       \<and> mean (map apr df) = a"
proof -
  let ?X = "map (\<lambda>r. (sui_price r, tvl r)) df"
  let ?y = "map apr df"
  define c where "c = \<lparr> coef_sui_price = 0, coef_tvl = 0, intercept = a \<rparr>"
  have ne: "df \<noteq> []" using len by auto
  have y: "?y = replicate (length df) a"
    using flat by (simp add: map_replicate_const [symmetric])
  have avg: "mean ?y = a"
    using ne by (simp add: mean_def y sum_list_replicate)
  have "rss c ?X ?y = (\<Sum>r\<leftarrow>df. (apr r - a) ^ 2)"
    by (simp add: rss_def c_def model_predict_def zip_map_map zip_same_conv_map comp_def)
  also have "\<dots> = (\<Sum>r\<leftarrow>df. 0)"
    using flat by (intro arg_cong [where f = sum_list]) simp
  finally have z: "rss c ?X ?y = 0" by simp
  have "0 \<le> rss m' ?X ?y" for m'
    unfolding rss_def by (rule sum_list_nonneg) auto
  with z have ls: "least_squares c ?X ?y"
    by (simp add: least_squares_def)
  have "(sui_price (last df), tvl (last df)) \<in> set ?X"
    using ne by (simp add: image_iff) (metis last_in_set)
  from least_squares_fitted_values [OF _ ls this]
  have "model_predict (LinearRegression_fit ?X ?y) (sui_price (last df), tvl (last df))
          = model_predict c (sui_price (last df), tvl (last df))"
    by simp
  then show ?thesis
    by (simp add: avg c_def model_predict_def)
qed

lemma flat_series_decision:
  assumes len: "5 \<le> length df"
      and flat: "\<forall>r \<in> set df. apr r = a \<and> tvl r = t \<and> sui_price r = p"
  shows "predict_optimal_stake (Some df) = (a < 0)"
  using flat_series_prediction [OF assms]
  by (simp add: predict_optimal_stake_unfold [OF len] spec_predict_def)

text \<open>
  C8 as stated ("every flat series of at least 5 records") fails on a flat series whose
  \<^verbatim>\<open>apr\<close> is negative: the predicted \<^verbatim>\<open>apr\<close> is the mean, \<open>-1\<close>, and \<open>-1 > -1.1\<close>.
\<close>

theorem predict_optimal_stake_flat_negative_counterexample:
  "predict_optimal_stake
     (Some [\<lparr> apr = -1, tvl = 100, sui_price = 4 \<rparr>, \<lparr> apr = -1, tvl = 100, sui_price = 4 \<rparr>,
      \<lparr> apr = -1, tvl = 100, sui_price = 4 \<rparr>, \<lparr> apr = -1, tvl = 100, sui_price = 4 \<rparr>,
      \<lparr> apr = -1, tvl = 100, sui_price = 4 \<rparr>]) = True"
  by (simp add: predict_optimal_stake_def LinearRegression_fit_def mean_def model_predict_def
        Let_def)

text \<open>
  C8, as amended. For every flat series of at least 5 records whose constant \<^verbatim>\<open>apr\<close> is
  not negative, \<^verbatim>\<open>predict_optimal_stake\<close> returns false: the predicted \<^verbatim>\<open>apr\<close> equals the mean
  \<^verbatim>\<open>apr\<close> and is not strictly greater than 1.1 times it.
\<close>

theorem predict_optimal_stake_flat_series:
  assumes "5 \<le> length df"
      and "\<forall>r \<in> set df. apr r = a \<and> tvl r = t \<and> sui_price r = p"
      and "0 \<le> a"
  shows "model_predict
           (LinearRegression_fit (map (\<lambda>r. (sui_price r, tvl r)) df) (map apr df))
           (sui_price (last df), tvl (last df)) = mean (map apr df)
       \<and> predict_optimal_stake (Some df) = False"
  using flat_series_prediction [OF assms(1) assms(2)]
    flat_series_decision [OF assms(1) assms(2)] assms(3)
  by simp

theorem predict_optimal_stake_flat_series_witness:
  "5 \<le> length
     [\<lparr> apr = 5, tvl = 100, sui_price = 4 \<rparr>, \<lparr> apr = 5, tvl = 100, sui_price = 4 \<rparr>,
      \<lparr> apr = 5, tvl = 100, sui_price = 4 \<rparr>, \<lparr> apr = 5, tvl = 100, sui_price = 4 \<rparr>,
      \<lparr> apr = 5, tvl = 100, sui_price = 4 \<rparr>]
   \<and> (0::real) \<le> 5
   \<and> predict_optimal_stake
        (Some [\<lparr> apr = 5, tvl = 100, sui_price = 4 \<rparr>, \<lparr> apr = 5, tvl = 100, sui_price = 4 \<rparr>,
      \<lparr> apr = 5, tvl = 100, sui_price = 4 \<rparr>, \<lparr> apr = 5, tvl = 100, sui_price = 4 \<rparr>,
      \<lparr> apr = 5, tvl = 100, sui_price = 4 \<rparr>]) = False"
proof -
  let ?df = "[\<lparr> apr = 5, tvl = 100, sui_price = 4 \<rparr>, \<lparr> apr = 5, tvl = 100, sui_price = 4 \<rparr>,
      \<lparr> apr = 5, tvl = 100, sui_price = 4 \<rparr>, \<lparr> apr = 5, tvl = 100, sui_price = 4 \<rparr>,
      \<lparr> apr = 5, tvl = 100, sui_price = 4 \<rparr>]"
  have h: "5 \<le> length ?df" by simp
  have f: "\<forall>r \<in> set ?df. apr r = 5 \<and> tvl r = 100 \<and> sui_price r = 4" by simp
  have n: "(0::real) \<le> 5" by simp
  from predict_optimal_stake_flat_series [OF h f n]
  have "predict_optimal_stake (Some ?df) = False" by blast
  with h n show ?thesis by blast
qed

section \<open>Properties of the rewards fetcher\<close>



lemma py_endswith_suffix: "py_endswith s sfx = suffix sfx s"
proof
  assume "py_endswith s sfx"
  then have "s = take (length s - length sfx) s @ sfx"
    by (metis append_take_drop_id py_endswith_def)
  then show "suffix sfx s" by (metis suffixI)
next
  assume "suffix sfx s"
  then obtain zs where "s = zs @ sfx" by (auto simp: suffix_def)
  then show "py_endswith s sfx" by (simp add: py_endswith_def)
qed

lemma reward_selected_well_formed:
  assumes "reward_well_formed pool_id r"
  shows "reward_selected pool_id r = Some (spec_selects pool_id r)"
  using assms
  by (auto simp: reward_well_formed_def reward_selected_def spec_selects_def json_field_def
        py_endswith_suffix split: json.splits option.splits if_splits)

lemma reward_record_well_formed:
  assumes "reward_well_formed pool_id r" and "spec_selects pool_id r"
  shows "reward_record r = Some (spec_record r)"
  using assms
  by (auto simp: reward_well_formed_def reward_record_def spec_record_def json_field_def
        split: json.splits option.splits if_splits)

lemma collect_rewards_well_formed:
  assumes "list_all (reward_well_formed pool_id) items"
  shows "collect_rewards pool_id items
           = Some (map spec_record (filter (spec_selects pool_id) items))"
  using assms
proof (induction items)
  case Nil
  then show ?case by simp
next
  case (Cons r items)
  then have wf: "reward_well_formed pool_id r"
    and rest: "collect_rewards pool_id items
                 = Some (map spec_record (filter (spec_selects pool_id) items))"
    by simp_all
  show ?case
  proof (cases "spec_selects pool_id r")
    case True
    then show ?thesis
      using reward_selected_well_formed [OF wf] reward_record_well_formed [OF wf True] rest
      by simp
  next
    case False
    then show ?thesis
      using reward_selected_well_formed [OF wf] rest by simp
  qed
qed

text \<open>
  C10, as amended. When the rewards endpoint answers 200 with an array of well-formed
  entries, the fetcher returns, in the order of the array, the records of exactly the
  entries whose pool is the pool id and whose coin type ends with \<^verbatim>\<open>::navx::NAVX\<close>; the
  amount of each is the upstream amount divided by \<open>10\<^sup>9\<close> and its token price is the
  upstream one, 0.144426003098488 when absent.
\<close>

theorem fetch_rewards_filter:
  assumes "rewards_api user_address = Http 200 (Some (JArr items))"
      and "list_all (reward_well_formed pool_id) items"
  shows "fetch_rewards rewards_api user_address pool_id
           = (map spec_record (filter (spec_selects pool_id) items), 200)"
  using assms(1) collect_rewards_well_formed [OF assms(2)]
  by (simp add: fetch_rewards_def)

lemma navx_suffix_example: "suffix ''::navx::NAVX'' ''0xabc::navx::NAVX''"
  by (simp add: py_endswith_suffix [symmetric] py_endswith_def)

lemma sui_suffix_example: "\<not> suffix ''::navx::NAVX'' ''0xabc::sui::SUI''"
  by (simp add: py_endswith_suffix [symmetric] py_endswith_def)

theorem fetch_rewards_filter_witness:
  "fetch_rewards
     (\<lambda>a. Http 200 (Some (JArr
        [JObj [(''pool'', JStr ''0x96''), (''coin_type'', JStr ''0xabc::navx::NAVX''),
               (''amount'', JStr ''2500000000''), (''timestamp'', JStr ''1700000000000'')],
         JObj [(''pool'', JStr ''0x96''), (''coin_type'', JStr ''0xabc::sui::SUI''),
               (''amount'', JStr ''7000000000'')],
         JObj [(''pool'', JStr ''0x11''), (''coin_type'', JStr ''0xabc::navx::NAVX''),
               (''amount'', JNull)]])))
     ''0xuser'' ''0x96''
   = ([\<lparr> amount = Finite 2.5, reward_timestamp = JStr ''1700000000000'',
          token_price = Finite 0.144426003098488 \<rparr>], 200)"
proof -
  let ?items = "[JObj [(''pool'', JStr ''0x96''), (''coin_type'', JStr ''0xabc::navx::NAVX''),
               (''amount'', JStr ''2500000000''), (''timestamp'', JStr ''1700000000000'')],
         JObj [(''pool'', JStr ''0x96''), (''coin_type'', JStr ''0xabc::sui::SUI''),
               (''amount'', JStr ''7000000000'')],
         JObj [(''pool'', JStr ''0x11''), (''coin_type'', JStr ''0xabc::navx::NAVX''),
               (''amount'', JNull)]]"
  have pf: "parse_float ''2500000000'' = Some (Finite 2500000000)"
    by (simp add: parse_float_defs literal_float_small)
  have wf: "list_all (reward_well_formed ''0x96'') ?items"
    by (simp add: reward_well_formed_def spec_selects_def json_field_def navx_suffix_example
          sui_suffix_example pf)
  have a: "(\<lambda>a. Http 200 (Some (JArr ?items))) ''0xuser'' = Http 200 (Some (JArr ?items))"
    by simp
  show ?thesis
    using fetch_rewards_filter [of "\<lambda>a. Http 200 (Some (JArr ?items))" "''0xuser''" ?items "''0x96''", OF a wf]
    by (simp add: spec_selects_def spec_record_def json_field_def navx_suffix_example
          sui_suffix_example pf literal_float_small)
qed

text \<open>
  C10 as stated ("for every upstream rewards array") fails on an array with an entry on
  which the record cannot be built: the first entry below has the pool id and the suffix,
  the second has a null amount, \<^verbatim>\<open>float(None)\<close> raises inside the comprehension, and the
  handler returns the empty list, without the first entry.
\<close>

theorem fetch_rewards_filter_counterexample:
  "spec_selects ''0x96''
     (JObj [(''pool'', JStr ''0x96''), (''coin_type'', JStr ''0xabc::navx::NAVX''),
            (''amount'', JStr ''2500000000'')])
   \<and> fetch_rewards
     (\<lambda>a. Http 200 (Some (JArr
        [JObj [(''pool'', JStr ''0x96''), (''coin_type'', JStr ''0xabc::navx::NAVX''),
               (''amount'', JStr ''2500000000'')],
         JObj [(''pool'', JStr ''0x96''), (''coin_type'', JStr ''0xdef::navx::NAVX''),
               (''amount'', JNull)]])))
     ''0xuser'' ''0x96''
   = ([], 200)"
proof -
  have pf: "parse_float ''2500000000'' = Some (Finite 2500000000)"
    by (simp add: parse_float_defs literal_float_small)
  show ?thesis
    by (simp add: spec_selects_def json_field_def navx_suffix_example fetch_rewards_def reward_selected_def
          reward_record_def py_endswith_def pf)
qed

end
